theory Spec2Isabelle
  imports Main "HOL-Library.Word" "HOL-Library.Sublist"
begin

text \<open>
  A model of the Google Calendar MCP server (\<open>src/index.ts\<close>): its utility functions, the
  lazily initialised OAuth2 client, the seven tool implementations and the handler that
  dispatches tool calls to them. Asynchronous functions are computations on an explicit
  world that either throw or return; the file system, the JSON parser, the date parser, the
  clock and the calendar service are parameters.
\<close>

section \<open>JavaScript strings and thrown values\<close>

text \<open>
  A JavaScript string is a sequence of UTF-16 code units. ASCII literals of the source are
  written \<open>js ''...''\<close>; the glyphs of the source are given by their code units.
\<close>

type_synonym jsstring = "16 word list"

definition js :: "string \<Rightarrow> jsstring" where
  "js s = map of_char s"

definition glyph_cross :: jsstring where
  "glyph_cross = [0x274C]"

definition glyph_check :: jsstring where
  "glyph_check = [0x2705]"

definition glyph_calendar :: jsstring where
  "glyph_calendar = [0xD83D, 0xDCC5]"

definition glyph_pin :: jsstring where
  "glyph_pin = [0xD83D, 0xDCCD]"

definition glyph_search :: jsstring where
  "glyph_search = [0xD83D, 0xDD0D]"

text \<open>
  What a \<open>catch\<close> clause can receive: an \<open>Error\<close> instance (of any subclass) with its
  message, or any other value, kept as its \<open>String(...)\<close> rendering.
\<close>

datatype thrown = ErrorObj jsstring | NonError jsstring

text \<open>\<open>formatError\<close> (index.ts, lines 35-40).\<close>

fun formatError :: "thrown \<Rightarrow> jsstring" where
  "formatError (ErrorObj message) = glyph_cross @ js '' Error: '' @ message"
| "formatError (NonError rendering) = glyph_cross @ js '' Error: '' @ rendering"

text \<open>
  \<open>String.prototype.trim\<close>: strips the code units of ECMAScript's WhiteSpace and
  LineTerminator productions from both ends.
\<close>

definition is_whitespace :: "16 word \<Rightarrow> bool" where
  "is_whitespace c =
     (c = 0x0009 \<or> c = 0x000A \<or> c = 0x000B \<or> c = 0x000C \<or> c = 0x000D \<or> c = 0x0020 \<or>
      c = 0x00A0 \<or> c = 0x1680 \<or> (0x2000 \<le> c \<and> c \<le> 0x200A) \<or> c = 0x2028 \<or>
      c = 0x2029 \<or> c = 0x202F \<or> c = 0x205F \<or> c = 0x3000 \<or> c = 0xFEFF)"

definition trim :: "jsstring \<Rightarrow> jsstring" where
  "trim s = rev (dropWhile is_whitespace (rev (dropWhile is_whitespace s)))"

text \<open>
  \<open>validateRequired\<close> (index.ts, lines 45-50). \<open>None\<close> is \<open>undefined\<close>; \<open>!value\<close> holds
  for \<open>undefined\<close> and for the empty string.
\<close>

definition validateRequired :: "jsstring option \<Rightarrow> jsstring \<Rightarrow> thrown + jsstring" where
  "validateRequired value name =
     (case value of
        None \<Rightarrow> Inl (ErrorObj (name @ js '' is required''))
      | Some v \<Rightarrow>
          if v = [] \<or> trim v = [] then Inl (ErrorObj (name @ js '' is required''))
          else Inr (trim v))"

text \<open>
  \<open>parseInt(string)\<close> with no radix: leading white space is skipped, a sign is read, a
  \<open>0x\<close>/\<open>0X\<close> prefix selects radix 16, and the longest run of digits of the radix is the
  value; \<open>None\<close> is \<open>NaN\<close> (no digit). The result is the exact integer: the rounding of
  integers beyond \<open>2^53\<close> to the nearest double is left out.
\<close>

definition digit_value :: "16 word \<Rightarrow> nat option" where
  "digit_value c =
     (if 0x30 \<le> c \<and> c \<le> 0x39 then Some (unat c - 48)
      else if 0x61 \<le> c \<and> c \<le> 0x7A then Some (unat c - 87)
      else if 0x41 \<le> c \<and> c \<le> 0x5A then Some (unat c - 55)
      else None)"

definition is_radix_digit :: "nat \<Rightarrow> 16 word \<Rightarrow> bool" where
  "is_radix_digit R c = (case digit_value c of None \<Rightarrow> False | Some d \<Rightarrow> d < R)"

fun digits_value :: "nat \<Rightarrow> nat \<Rightarrow> jsstring \<Rightarrow> nat" where
  "digits_value R acc [] = acc"
| "digits_value R acc (c # cs) =
     digits_value R (acc * R + (case digit_value c of None \<Rightarrow> 0 | Some d \<Rightarrow> d)) cs"

definition strip_sign :: "jsstring \<Rightarrow> int \<times> jsstring" where
  "strip_sign s =
     (case s of
        [] \<Rightarrow> (1, s)
      | c # cs \<Rightarrow> if c = 0x2D then (-1, cs) else if c = 0x2B then (1, cs) else (1, s))"

definition strip_radix_prefix :: "jsstring \<Rightarrow> nat \<times> jsstring" where
  "strip_radix_prefix s =
     (if take 2 s = js ''0x'' \<or> take 2 s = js ''0X'' then (16, drop 2 s) else (10, s))"

definition parseInt :: "jsstring \<Rightarrow> int option" where
  "parseInt s =
     (let (sign, s1) = strip_sign (dropWhile is_whitespace s);
          (R, s2) = strip_radix_prefix s1;
          Z = takeWhile (is_radix_digit R) s2
      in if Z = [] then None else Some (sign * int (digits_value R 0 Z)))"

text \<open>Decimal rendering of an array length in a template literal.\<close>

fun show_nat :: "nat \<Rightarrow> jsstring" where
  "show_nat n =
     (if n < 10 then [of_nat (48 + n)]
      else show_nat (n div 10) @ [of_nat (48 + n mod 10)])"

declare show_nat.simps [simp del]

section \<open>Data model\<close>

text \<open>Values produced by \<open>JSON.parse\<close>; \<open>undefined\<close> is \<open>None\<close> of \<open>json option\<close>.\<close>

datatype json =
    JNull
  | JBool bool
  | JNum int
  | JStr jsstring
  | JArr "json list"
  | JObj "(jsstring \<times> json) list"

text \<open>JavaScript truthiness of a possibly undefined JSON value, and of a possibly
  undefined string.\<close>

fun truthy :: "json option \<Rightarrow> bool" where
  "truthy None = False"
| "truthy (Some JNull) = False"
| "truthy (Some (JBool b)) = b"
| "truthy (Some (JNum n)) = (n \<noteq> 0)"
| "truthy (Some (JStr s)) = (s \<noteq> [])"
| "truthy (Some (JArr xs)) = True"
| "truthy (Some (JObj kvs)) = True"

fun truthy_str :: "jsstring option \<Rightarrow> bool" where
  "truthy_str None = False"
| "truthy_str (Some s) = (s \<noteq> [])"

text \<open>\<open>a || b\<close> on possibly undefined strings, and \<open>a || "literal"\<close>.\<close>

definition or_else :: "jsstring option \<Rightarrow> jsstring option \<Rightarrow> jsstring option" where
  "or_else a b = (if truthy_str a then a else b)"

definition or_default :: "jsstring option \<Rightarrow> jsstring \<Rightarrow> jsstring" where
  "or_default a d = (case a of None \<Rightarrow> d | Some s \<Rightarrow> if s = [] then d else s)"

text \<open>A default parameter value (\<open>x: string = "..."\<close>) replaces \<open>undefined\<close> only.\<close>

definition param_default :: "jsstring option \<Rightarrow> jsstring \<Rightarrow> jsstring" where
  "param_default a d = (case a of None \<Rightarrow> d | Some s \<Rightarrow> s)"

text \<open>\<open>${x}\<close> in a template literal.\<close>

definition template_str :: "jsstring option \<Rightarrow> jsstring" where
  "template_str a = (case a of None \<Rightarrow> js ''undefined'' | Some s \<Rightarrow> s)"

text \<open>Reading a property \<open>v.k\<close> of a defined JSON value: \<open>null\<close> throws a TypeError,
  an object (its members listed with each key once) yields the member or \<open>undefined\<close>,
  any other value has none of the properties read here.\<close>

definition get_prop :: "json \<Rightarrow> jsstring \<Rightarrow> thrown + json option" where
  "get_prop v k =
     (case v of
        JNull \<Rightarrow> Inl (ErrorObj (js ''Cannot read properties of null''))
      | JObj kvs \<Rightarrow> Inr (map_of kvs k)
      | _ \<Rightarrow> Inr None)"

text \<open>\<open>v[0]\<close> on a possibly undefined JSON value.\<close>

definition get_index0 :: "json option \<Rightarrow> thrown + json option" where
  "get_index0 v =
     (case v of
        None \<Rightarrow> Inl (ErrorObj (js ''Cannot read properties of undefined''))
      | Some JNull \<Rightarrow> Inl (ErrorObj (js ''Cannot read properties of null''))
      | Some (JArr xs) \<Rightarrow> Inr (case xs of [] \<Rightarrow> None | x # _ \<Rightarrow> Some x)
      | Some (JStr s) \<Rightarrow> Inr (case s of [] \<Rightarrow> None | c # _ \<Rightarrow> Some (JStr [c]))
      | Some (JObj kvs) \<Rightarrow> Inr (map_of kvs (js ''0''))
      | Some _ \<Rightarrow> Inr None)"

text \<open>The OAuth2 client handle built by \<open>initializeAuth\<close>: the three constructor
  arguments and the credentials set on it.\<close>

record oauth_client =
  oc_client_id :: "json option"
  oc_client_secret :: "json option"
  oc_redirect_uri :: "json option"
  oc_credentials :: json

text \<open>Remote entities as the calendar service returns them; an absent field is \<open>None\<close>.\<close>

record event_time =
  et_date :: "jsstring option"
  et_dateTime :: "jsstring option"
  et_timeZone :: "jsstring option"

record attendee =
  at_email :: "jsstring option"
  at_responseStatus :: "jsstring option"

record entry_point =
  ep_entryPointType :: "jsstring option"
  ep_uri :: "jsstring option"

record conference_data =
  cd_entryPoints :: "entry_point list option"

record event =
  ev_id :: "jsstring option"
  ev_summary :: "jsstring option"
  ev_start :: "event_time option"
  ev_end :: "event_time option"
  ev_status :: "jsstring option"
  ev_description :: "jsstring option"
  ev_location :: "jsstring option"
  ev_attendees :: "attendee list option"
  ev_conferenceData :: "conference_data option"
  ev_htmlLink :: "jsstring option"

record calendar_entry =
  cal_id :: "jsstring option"
  cal_summary :: "jsstring option"
  cal_description :: "jsstring option"
  cal_primary :: "bool option"
  cal_accessRole :: "jsstring option"

text \<open>Request payloads: the \<open>params\<close> of a list call and the \<open>requestBody\<close> (\<open>eventData\<close>)
  of an insert or update call. A key that the source does not set is \<open>None\<close>.\<close>

record list_params =
  lp_calendarId :: jsstring
  lp_q :: "jsstring option"
  lp_maxResults :: int
  lp_singleEvents :: bool
  lp_orderBy :: jsstring
  lp_timeMin :: "jsstring option"
  lp_timeMax :: "jsstring option"

record event_body =
  eb_summary :: "jsstring option"
  eb_start :: "event_time option"
  eb_end :: "event_time option"
  eb_description :: "jsstring option"
  eb_location :: "jsstring option"
  eb_attendees :: "jsstring list option"

text \<open>The remote calls the Gateway can issue, as they are logged in the world.\<close>

datatype api_call =
    EventsList list_params
  | EventsInsert jsstring event_body
  | EventsGet jsstring jsstring
  | EventsUpdate jsstring jsstring event_body
  | EventsDelete jsstring jsstring
  | CalendarListList

section \<open>Environment and world\<close>

text \<open>
  What the process is given and does not implement: the two environment variables, the
  file system (\<open>fs.readFile\<close>), \<open>JSON.parse\<close>, \<open>new Date(s).toISOString()\<close> (\<open>None\<close> when it
  throws the RangeError of an invalid date), the clock, and the calendar service, whose
  answers may depend on the client handle, the request and its own state \<open>'r\<close>.
\<close>

record 'r env =
  env_credentials_path :: "jsstring option"
  env_token_path :: "jsstring option"
  read_file :: "jsstring \<Rightarrow> thrown + jsstring"
  json_parse :: "jsstring \<Rightarrow> thrown + json"
  date_to_iso :: "jsstring \<Rightarrow> jsstring option"
  now_iso :: jsstring
  svc_events_list :: "oauth_client \<Rightarrow> list_params \<Rightarrow> 'r \<Rightarrow> (thrown + event list option) \<times> 'r"
  svc_events_insert :: "oauth_client \<Rightarrow> jsstring \<Rightarrow> event_body \<Rightarrow> 'r \<Rightarrow> (thrown + event) \<times> 'r"
  svc_events_get :: "oauth_client \<Rightarrow> jsstring \<Rightarrow> jsstring \<Rightarrow> 'r \<Rightarrow> (thrown + event) \<times> 'r"
  svc_events_update ::
    "oauth_client \<Rightarrow> jsstring \<Rightarrow> jsstring \<Rightarrow> event_body \<Rightarrow> 'r \<Rightarrow> (thrown + event) \<times> 'r"
  svc_events_delete :: "oauth_client \<Rightarrow> jsstring \<Rightarrow> jsstring \<Rightarrow> 'r \<Rightarrow> (thrown + unit) \<times> 'r"
  svc_calendarList_list :: "oauth_client \<Rightarrow> 'r \<Rightarrow> (thrown + calendar_entry list option) \<times> 'r"

text \<open>
  The mutable state: the module variable \<open>auth\<close>, the log of files read, the log of
  remote calls issued, and the state of the remote service. Diagnostic output on stderr
  (\<open>logger\<close>) is not part of the model.
\<close>

record 'r world =
  auth :: "oauth_client option"
  file_reads :: "jsstring list"
  calls :: "api_call list"
  remote :: 'r

text \<open>An asynchronous computation: it runs on a world and either throws or returns.\<close>

type_synonym ('a, 'r) io = "'r world \<Rightarrow> (thrown + 'a) \<times> 'r world"

definition ret :: "'a \<Rightarrow> ('a, 'r) io" where
  "ret x w = (Inr x, w)"

definition throw :: "thrown \<Rightarrow> ('a, 'r) io" where
  "throw e w = (Inl e, w)"

definition lift :: "thrown + 'a \<Rightarrow> ('a, 'r) io" where
  "lift r w = (r, w)"

definition bind :: "('a, 'r) io \<Rightarrow> ('a \<Rightarrow> ('b, 'r) io) \<Rightarrow> ('b, 'r) io" where
  "bind m f w = (case m w of (Inl e, w') \<Rightarrow> (Inl e, w') | (Inr x, w') \<Rightarrow> f x w')"

definition try_catch :: "('a, 'r) io \<Rightarrow> (thrown \<Rightarrow> ('a, 'r) io) \<Rightarrow> ('a, 'r) io" where
  "try_catch m h w = (case m w of (Inl e, w') \<Rightarrow> h e w' | (Inr x, w') \<Rightarrow> (Inr x, w'))"

text \<open>The configuration constants (index.ts, lines 20-21).\<close>

definition CREDENTIALS_PATH :: "'r env \<Rightarrow> jsstring" where
  "CREDENTIALS_PATH env =
     or_default (env_credentials_path env) (js ''/app/credentials/credentials.json'')"

definition TOKEN_PATH :: "'r env \<Rightarrow> jsstring" where
  "TOKEN_PATH env = or_default (env_token_path env) (js ''/app/credentials/token.json'')"

text \<open>\<open>fs.readFile(path, "utf-8")\<close>: the read is logged, then it returns or throws.\<close>

definition fs_readFile :: "'r env \<Rightarrow> jsstring \<Rightarrow> (jsstring, 'r) io" where
  "fs_readFile env path w = (read_file env path, w\<lparr>file_reads := file_reads w @ [path]\<rparr>)"

section \<open>Authentication\<close>

text \<open>
  The destructuring \<open>const { client_secret, client_id, redirect_uris } = credentials.installed
  || credentials.web\<close> followed by \<open>new google.auth.OAuth2(client_id, client_secret,
  redirect_uris[0])\<close> and \<open>auth.setCredentials(token)\<close> (index.ts, lines 73-75).
\<close>

definition make_client :: "json \<Rightarrow> json \<Rightarrow> thrown + oauth_client" where
  "make_client credentials token =
     (case get_prop credentials (js ''installed'') of
        Inl e \<Rightarrow> Inl e
      | Inr installed \<Rightarrow>
          (case (if truthy installed then Inr installed else get_prop credentials (js ''web'')) of
             Inl e \<Rightarrow> Inl e
           | Inr None \<Rightarrow> Inl (ErrorObj (js ''Cannot destructure property of undefined''))
           | Inr (Some section) \<Rightarrow>
               (case get_prop section (js ''client_secret'') of
                  Inl e \<Rightarrow> Inl e
                | Inr client_secret \<Rightarrow>
                    (case get_prop section (js ''client_id'') of
                       Inl e \<Rightarrow> Inl e
                     | Inr client_id \<Rightarrow>
                         (case get_prop section (js ''redirect_uris'') of
                            Inl e \<Rightarrow> Inl e
                          | Inr redirect_uris \<Rightarrow>
                              (case get_index0 redirect_uris of
                                 Inl e \<Rightarrow> Inl e
                               | Inr redirect \<Rightarrow>
                                   Inr \<lparr>oc_client_id = client_id,
                                        oc_client_secret = client_secret,
                                        oc_redirect_uri = redirect,
                                        oc_credentials = token\<rparr>))))))"

text \<open>\<open>initializeAuth\<close> (index.ts, lines 60-83).\<close>

definition auth_error :: thrown where
  "auth_error = ErrorObj (js (''Failed to initialize Google Calendar authentication. '' @
     ''Make sure credentials and token files are properly set up.''))"

definition initializeAuth :: "'r env \<Rightarrow> (oauth_client, 'r) io" where
  "initializeAuth env w =
     (case auth w of
        Some a \<Rightarrow> (Inr a, w)
      | None \<Rightarrow>
          try_catch
            (bind (fs_readFile env (CREDENTIALS_PATH env)) (\<lambda>credentialsContent.
             bind (lift (json_parse env credentialsContent)) (\<lambda>credentials.
             bind (fs_readFile env (TOKEN_PATH env)) (\<lambda>tokenContent.
             bind (lift (json_parse env tokenContent)) (\<lambda>token.
             bind (lift (make_client credentials token)) (\<lambda>a w'.
               (Inr a, w'\<lparr>auth := Some a\<rparr>)))))))
            (\<lambda>error. throw auth_error) w)"

text \<open>\<open>getCalendar\<close> (index.ts, lines 88-91): the calendar client is the authenticated
  handle; the methods below are those of the client library, which log the call and ask the
  service.\<close>

definition getCalendar :: "'r env \<Rightarrow> (oauth_client, 'r) io" where
  "getCalendar env = initializeAuth env"

definition remote_call ::
  "api_call \<Rightarrow> ('r \<Rightarrow> (thrown + 'a) \<times> 'r) \<Rightarrow> ('a, 'r) io" where
  "remote_call c f w =
     (case f (remote w) of (res, r') \<Rightarrow> (res, w\<lparr>calls := calls w @ [c], remote := r'\<rparr>))"

definition events_list :: "'r env \<Rightarrow> oauth_client \<Rightarrow> list_params \<Rightarrow> (event list option, 'r) io" where
  "events_list env calendar params = remote_call (EventsList params) (svc_events_list env calendar params)"

definition events_insert :: "'r env \<Rightarrow> oauth_client \<Rightarrow> jsstring \<Rightarrow> event_body \<Rightarrow> (event, 'r) io" where
  "events_insert env calendar calendarId requestBody =
     remote_call (EventsInsert calendarId requestBody)
       (svc_events_insert env calendar calendarId requestBody)"

definition events_get :: "'r env \<Rightarrow> oauth_client \<Rightarrow> jsstring \<Rightarrow> jsstring \<Rightarrow> (event, 'r) io" where
  "events_get env calendar calendarId eventId =
     remote_call (EventsGet calendarId eventId) (svc_events_get env calendar calendarId eventId)"

definition events_update ::
  "'r env \<Rightarrow> oauth_client \<Rightarrow> jsstring \<Rightarrow> jsstring \<Rightarrow> event_body \<Rightarrow> (event, 'r) io" where
  "events_update env calendar calendarId eventId requestBody =
     remote_call (EventsUpdate calendarId eventId requestBody)
       (svc_events_update env calendar calendarId eventId requestBody)"

definition events_delete :: "'r env \<Rightarrow> oauth_client \<Rightarrow> jsstring \<Rightarrow> jsstring \<Rightarrow> (unit, 'r) io" where
  "events_delete env calendar calendarId eventId =
     remote_call (EventsDelete calendarId eventId)
       (svc_events_delete env calendar calendarId eventId)"

definition calendarList_list :: "'r env \<Rightarrow> oauth_client \<Rightarrow> (calendar_entry list option, 'r) io" where
  "calendarList_list env calendar = remote_call CalendarListList (svc_calendarList_list env calendar)"

section \<open>Tool implementations\<close>

definition nl :: jsstring where
  "nl = [0x0A]"

definition dquote :: jsstring where
  "dquote = [0x22]"

text \<open>\<open>new Date(s).toISOString()\<close>: an invalid date throws a RangeError.\<close>

definition toISOString :: "'r env \<Rightarrow> jsstring \<Rightarrow> thrown + jsstring" where
  "toISOString env s =
     (case date_to_iso env s of
        None \<Rightarrow> Inl (ErrorObj (js ''Invalid time value''))
      | Some t \<Rightarrow> Inr t)"

text \<open>\<open>t?.dateTime || t?.date\<close>.\<close>

definition time_of :: "event_time option \<Rightarrow> jsstring option" where
  "time_of t = (case t of None \<Rightarrow> None | Some x \<Rightarrow> or_else (et_dateTime x) (et_date x))"

text \<open>\<open>Array.prototype.join\<close>: an undefined element is rendered as the empty string.\<close>

fun join :: "jsstring \<Rightarrow> jsstring option list \<Rightarrow> jsstring" where
  "join sep [] = []"
| "join sep [x] = param_default x []"
| "join sep (x # y # ys) = param_default x [] @ sep @ join sep (y # ys)"

text \<open>\<open>String.prototype.split\<close> on a one-unit separator.\<close>

fun split :: "16 word \<Rightarrow> jsstring \<Rightarrow> jsstring list" where
  "split sep [] = [[]]"
| "split sep (c # cs) =
     (if c = sep then [] # split sep cs
      else (case split sep cs of [] \<Rightarrow> [[c]] | p # ps \<Rightarrow> (c # p) # ps))"

text \<open>\<open>parseInt(maxResults) || 10\<close>: \<open>NaN\<close> and zero are falsy.\<close>

definition maxResultsNum :: "jsstring \<Rightarrow> int" where
  "maxResultsNum maxResults =
     (case parseInt maxResults of None \<Rightarrow> 10 | Some n \<Rightarrow> if n = 0 then 10 else n)"

text \<open>The body of the loop of \<open>listEvents\<close> (index.ts, lines 136-153).\<close>

definition list_event_block :: "event \<Rightarrow> jsstring" where
  "list_event_block e =
     glyph_pin @ js '' '' @ or_default (ev_summary e) (js ''Untitled Event'') @ nl @
     js ''   ID: '' @ template_str (ev_id e) @ nl @
     js ''   Start: '' @ template_str (time_of (ev_start e)) @ nl @
     js ''   End: '' @ template_str (time_of (ev_end e)) @ nl @
     (if truthy_str (ev_description e)
      then js ''   Description: '' @ template_str (ev_description e) @ nl else []) @
     (if truthy_str (ev_location e)
      then js ''   Location: '' @ template_str (ev_location e) @ nl else []) @
     (case ev_attendees e of
        None \<Rightarrow> []
      | Some atts \<Rightarrow>
          if length atts > 0
          then js ''   Attendees: '' @ join (js '', '') (map at_email atts) @ nl else []) @
     nl"

text \<open>\<open>listEvents\<close> (index.ts, lines 98-160).\<close>

definition listEvents ::
  "'r env \<Rightarrow> jsstring option \<Rightarrow> jsstring option \<Rightarrow> jsstring option \<Rightarrow> jsstring option \<Rightarrow>
   (jsstring, 'r) io" where
  "listEvents env maxResults_arg calendarId_arg timeMin_arg timeMax_arg =
     (let maxResults = param_default maxResults_arg (js ''10'');
          calendarId = param_default calendarId_arg (js ''primary'');
          timeMin = param_default timeMin_arg [];
          timeMax = param_default timeMax_arg []
      in try_catch
           (bind (getCalendar env) (\<lambda>calendar.
            bind (lift (if timeMin \<noteq> [] then toISOString env timeMin else Inr (now_iso env)))
              (\<lambda>tmin.
            bind (lift (if timeMax \<noteq> [] then map_sum id Some (toISOString env timeMax)
                        else Inr None)) (\<lambda>tmax.
            bind (events_list env calendar
                    \<lparr>lp_calendarId = calendarId, lp_q = None,
                     lp_maxResults = maxResultsNum maxResults, lp_singleEvents = True,
                     lp_orderBy = js ''startTime'', lp_timeMin = Some tmin,
                     lp_timeMax = tmax\<rparr>) (\<lambda>items.
            let events = (case items of None \<Rightarrow> [] | Some xs \<Rightarrow> xs)
            in if length events = 0
               then ret (glyph_calendar @ js '' No upcoming events found.'')
               else ret (glyph_calendar @ js '' Found '' @ show_nat (length events) @
                         js '' event(s):'' @ nl @ nl @
                         concat (map list_event_block events)))))))
           (\<lambda>error. ret (formatError error)))"

text \<open>\<open>createEvent\<close> (index.ts, lines 165-222).\<close>

definition utc_time :: "jsstring \<Rightarrow> event_time" where
  "utc_time t = \<lparr>et_date = None, et_dateTime = Some t, et_timeZone = Some (js ''UTC'')\<rparr>"

definition createEvent ::
  "'r env \<Rightarrow> jsstring option \<Rightarrow> jsstring option \<Rightarrow> jsstring option \<Rightarrow> jsstring option \<Rightarrow>
   jsstring option \<Rightarrow> jsstring option \<Rightarrow> jsstring option \<Rightarrow> (jsstring, 'r) io" where
  "createEvent env summary_arg start_arg end_arg description_arg location_arg attendees_arg
     calendarId_arg =
     (let summary = param_default summary_arg [];
          start = param_default start_arg [];
          end' = param_default end_arg [];
          description = param_default description_arg [];
          location = param_default location_arg [];
          attendees = param_default attendees_arg [];
          calendarId = param_default calendarId_arg (js ''primary'')
      in try_catch
           (bind (lift (validateRequired (Some summary) (js ''summary''))) (\<lambda>_.
            bind (lift (validateRequired (Some start) (js ''start''))) (\<lambda>_.
            bind (lift (validateRequired (Some end') (js ''end''))) (\<lambda>_.
            bind (getCalendar env) (\<lambda>calendar.
            bind (lift (toISOString env start)) (\<lambda>startIso.
            bind (lift (toISOString env end')) (\<lambda>endIso.
            bind (events_insert env calendar calendarId
                    \<lparr>eb_summary = Some summary,
                     eb_start = Some (utc_time startIso),
                     eb_end = Some (utc_time endIso),
                     eb_description = (if description \<noteq> [] then Some description else None),
                     eb_location = (if location \<noteq> [] then Some location else None),
                     eb_attendees =
                       (if attendees \<noteq> [] then Some (map trim (split 0x2C attendees))
                        else None)\<rparr>) (\<lambda>data.
            ret (glyph_check @ js '' Event created successfully!'' @ nl @ nl @
                 glyph_pin @ js '' '' @ template_str (ev_summary data) @ nl @
                 js ''   ID: '' @ template_str (ev_id data) @ nl @
                 js ''   Start: '' @ template_str (time_of (ev_start data)) @ nl @
                 js ''   End: '' @ template_str (time_of (ev_end data)) @ nl @
                 js ''   Link: '' @ template_str (ev_htmlLink data))))))))))
           (\<lambda>error. ret (formatError error)))"

text \<open>
  \<open>updateEvent\<close> (index.ts, lines 227-294). The tests \<open>description !== undefined\<close> and
  \<open>location !== undefined\<close> are made on the parameters after their default \<open>""\<close> has
  replaced \<open>undefined\<close>.
\<close>

definition is_defined :: "'a option \<Rightarrow> bool" where
  "is_defined x = (x \<noteq> None)"

definition updateEvent ::
  "'r env \<Rightarrow> jsstring option \<Rightarrow> jsstring option \<Rightarrow> jsstring option \<Rightarrow> jsstring option \<Rightarrow>
   jsstring option \<Rightarrow> jsstring option \<Rightarrow> jsstring option \<Rightarrow> (jsstring, 'r) io" where
  "updateEvent env eventId_arg summary_arg start_arg end_arg description_arg location_arg
     calendarId_arg =
     (let eventId = param_default eventId_arg [];
          summary = param_default summary_arg [];
          start = param_default start_arg [];
          end' = param_default end_arg [];
          description = param_default description_arg [];
          location = param_default location_arg [];
          calendarId = param_default calendarId_arg (js ''primary'')
      in try_catch
           (bind (lift (validateRequired (Some eventId) (js ''eventId''))) (\<lambda>_.
            bind (getCalendar env) (\<lambda>calendar.
            bind (events_get env calendar calendarId eventId) (\<lambda>existing.
            bind (lift (if start \<noteq> [] then map_sum id (\<lambda>t. Some (utc_time t))
                                               (toISOString env start)
                        else Inr (ev_start existing))) (\<lambda>newStart.
            bind (lift (if end' \<noteq> [] then map_sum id (\<lambda>t. Some (utc_time t))
                                              (toISOString env end')
                        else Inr (ev_end existing))) (\<lambda>newEnd.
            bind (events_update env calendar calendarId eventId
                    \<lparr>eb_summary = or_else (Some summary) (ev_summary existing),
                     eb_start = newStart,
                     eb_end = newEnd,
                     eb_description =
                       (if is_defined (Some description) then Some description else None),
                     eb_location =
                       (if is_defined (Some location) then Some location else None),
                     eb_attendees = None\<rparr>) (\<lambda>data.
            ret (glyph_check @ js '' Event updated successfully!'' @ nl @ nl @
                 glyph_pin @ js '' '' @ template_str (ev_summary data) @ nl @
                 js ''   ID: '' @ template_str (ev_id data) @ nl @
                 js ''   Start: '' @ template_str (time_of (ev_start data)) @ nl @
                 js ''   End: '' @ template_str (time_of (ev_end data))))))))))
           (\<lambda>error. ret (formatError error)))"

text \<open>\<open>deleteEvent\<close> (index.ts, lines 299-320).\<close>

definition deleteEvent ::
  "'r env \<Rightarrow> jsstring option \<Rightarrow> jsstring option \<Rightarrow> (jsstring, 'r) io" where
  "deleteEvent env eventId_arg calendarId_arg =
     (let eventId = param_default eventId_arg [];
          calendarId = param_default calendarId_arg (js ''primary'')
      in try_catch
           (bind (lift (validateRequired (Some eventId) (js ''eventId''))) (\<lambda>_.
            bind (getCalendar env) (\<lambda>calendar.
            bind (events_delete env calendar calendarId eventId) (\<lambda>_.
            ret (glyph_check @ js '' Event deleted successfully!'' @ nl @
                 js ''   Event ID: '' @ eventId)))))
           (\<lambda>error. ret (formatError error)))"

text \<open>\<open>searchEvents\<close> (index.ts, lines 325-370).\<close>

definition search_event_block :: "event \<Rightarrow> jsstring" where
  "search_event_block e =
     glyph_pin @ js '' '' @ or_default (ev_summary e) (js ''Untitled Event'') @ nl @
     js ''   ID: '' @ template_str (ev_id e) @ nl @
     js ''   Start: '' @ template_str (time_of (ev_start e)) @ nl @
     (if truthy_str (ev_description e)
      then js ''   Description: '' @ template_str (ev_description e) @ nl else []) @
     nl"

definition searchEvents ::
  "'r env \<Rightarrow> jsstring option \<Rightarrow> jsstring option \<Rightarrow> jsstring option \<Rightarrow> (jsstring, 'r) io" where
  "searchEvents env query_arg maxResults_arg calendarId_arg =
     (let query = param_default query_arg [];
          maxResults = param_default maxResults_arg (js ''10'');
          calendarId = param_default calendarId_arg (js ''primary'')
      in try_catch
           (bind (lift (validateRequired (Some query) (js ''query''))) (\<lambda>_.
            bind (getCalendar env) (\<lambda>calendar.
            bind (events_list env calendar
                    \<lparr>lp_calendarId = calendarId, lp_q = Some query,
                     lp_maxResults = maxResultsNum maxResults, lp_singleEvents = True,
                     lp_orderBy = js ''startTime'', lp_timeMin = None,
                     lp_timeMax = None\<rparr>) (\<lambda>items.
            let events = (case items of None \<Rightarrow> [] | Some xs \<Rightarrow> xs)
            in if length events = 0
               then ret (glyph_search @ js '' No events found matching: '' @ dquote @ query @ dquote)
               else ret (glyph_search @ js '' Found '' @ show_nat (length events) @
                         js '' event(s) matching '' @ dquote @ query @ dquote @ js '':'' @ nl @ nl @
                         concat (map search_event_block events))))))
           (\<lambda>error. ret (formatError error)))"

text \<open>\<open>listCalendars\<close> (index.ts, lines 375-406).\<close>

definition calendar_block :: "calendar_entry \<Rightarrow> jsstring" where
  "calendar_block c =
     glyph_pin @ js '' '' @ or_default (cal_summary c) (js ''Untitled Calendar'') @ nl @
     js ''   ID: '' @ template_str (cal_id c) @ nl @
     (if truthy_str (cal_description c)
      then js ''   Description: '' @ template_str (cal_description c) @ nl else []) @
     js ''   Primary: '' @ (if cal_primary c = Some True then js ''Yes'' else js ''No'') @ nl @
     js ''   Access: '' @ template_str (cal_accessRole c) @ nl @
     nl"

definition listCalendars :: "'r env \<Rightarrow> (jsstring, 'r) io" where
  "listCalendars env =
     try_catch
       (bind (getCalendar env) (\<lambda>calendar.
        bind (calendarList_list env calendar) (\<lambda>items.
        let calendars = (case items of None \<Rightarrow> [] | Some xs \<Rightarrow> xs)
        in if length calendars = 0
           then ret (glyph_calendar @ js '' No calendars found.'')
           else ret (glyph_calendar @ js '' Found '' @ show_nat (length calendars) @
                     js '' calendar(s):'' @ nl @ nl @
                     concat (map calendar_block calendars)))))
       (\<lambda>error. ret (formatError error))"

text \<open>\<open>getEvent\<close> (index.ts, lines 411-466); \<open>event_details\<close> is the text built from
  \<open>response.data\<close> (lines 427-461).\<close>

definition attendee_line :: "attendee \<Rightarrow> jsstring" where
  "attendee_line a =
     js ''  - '' @ template_str (at_email a) @ js '' ('' @
     or_default (at_responseStatus a) (js ''no response'') @ js '')'' @ nl"

definition entry_point_line :: "entry_point \<Rightarrow> jsstring" where
  "entry_point_line e =
     js ''  - '' @ template_str (ep_entryPointType e) @ js '': '' @
     template_str (ep_uri e) @ nl"

definition event_details :: "event \<Rightarrow> jsstring" where
  "event_details e =
     glyph_pin @ js '' '' @ or_default (ev_summary e) (js ''Untitled Event'') @ nl @ nl @
     js ''ID: '' @ template_str (ev_id e) @ nl @
     js ''Start: '' @ template_str (time_of (ev_start e)) @ nl @
     js ''End: '' @ template_str (time_of (ev_end e)) @ nl @
     js ''Status: '' @ template_str (ev_status e) @ nl @
     (if truthy_str (ev_description e)
      then js ''Description: '' @ template_str (ev_description e) @ nl else []) @
     (if truthy_str (ev_location e)
      then js ''Location: '' @ template_str (ev_location e) @ nl else []) @
     (case ev_attendees e of
        None \<Rightarrow> []
      | Some atts \<Rightarrow>
          if length atts > 0
          then nl @ js ''Attendees:'' @ nl @ concat (map attendee_line atts) else []) @
     (case ev_conferenceData e of
        None \<Rightarrow> []
      | Some cd \<Rightarrow>
          (case cd_entryPoints cd of
             None \<Rightarrow> []
           | Some eps \<Rightarrow> nl @ js ''Conference:'' @ nl @ concat (map entry_point_line eps))) @
     nl @ js ''Link: '' @ template_str (ev_htmlLink e)"

definition getEvent ::
  "'r env \<Rightarrow> jsstring option \<Rightarrow> jsstring option \<Rightarrow> (jsstring, 'r) io" where
  "getEvent env eventId_arg calendarId_arg =
     (let eventId = param_default eventId_arg [];
          calendarId = param_default calendarId_arg (js ''primary'')
      in try_catch
           (bind (lift (validateRequired (Some eventId) (js ''eventId''))) (\<lambda>_.
            bind (getCalendar env) (\<lambda>calendar.
            bind (events_get env calendar calendarId eventId) (\<lambda>event.
            ret (event_details event)))))
           (\<lambda>error. ret (formatError error)))"

section \<open>Tool dispatch\<close>

text \<open>The names of \<open>TOOLS\<close> (index.ts, lines 483-651).\<close>

definition tool_names :: "jsstring list" where
  "tool_names =
     [js ''list_events'', js ''create_event'', js ''update_event'', js ''delete_event'',
      js ''search_events'', js ''list_calendars'', js ''get_event'']"

text \<open>
  A tool call carries a name and an optional argument mapping, whose values are the strings
  the tool schemas declare. The result is one text block and an optional error flag.
\<close>

type_synonym tool_args = "(jsstring \<rightharpoonup> jsstring) option"

datatype content_block = TextContent jsstring

record tool_result =
  content :: "content_block list"
  isError :: "bool option"

text \<open>\<open>args?.key\<close>.\<close>

definition arg :: "tool_args \<Rightarrow> string \<Rightarrow> jsstring option" where
  "arg args key = (case args of None \<Rightarrow> None | Some m \<Rightarrow> m (js key))"

text \<open>The seven operations the handler delegates to.\<close>

record 'r gateway =
  gw_listEvents ::
    "jsstring option \<Rightarrow> jsstring option \<Rightarrow> jsstring option \<Rightarrow> jsstring option \<Rightarrow>
     (jsstring, 'r) io"
  gw_createEvent ::
    "jsstring option \<Rightarrow> jsstring option \<Rightarrow> jsstring option \<Rightarrow> jsstring option \<Rightarrow>
     jsstring option \<Rightarrow> jsstring option \<Rightarrow> jsstring option \<Rightarrow> (jsstring, 'r) io"
  gw_updateEvent ::
    "jsstring option \<Rightarrow> jsstring option \<Rightarrow> jsstring option \<Rightarrow> jsstring option \<Rightarrow>
     jsstring option \<Rightarrow> jsstring option \<Rightarrow> jsstring option \<Rightarrow> (jsstring, 'r) io"
  gw_deleteEvent :: "jsstring option \<Rightarrow> jsstring option \<Rightarrow> (jsstring, 'r) io"
  gw_searchEvents ::
    "jsstring option \<Rightarrow> jsstring option \<Rightarrow> jsstring option \<Rightarrow> (jsstring, 'r) io"
  gw_listCalendars :: "(jsstring, 'r) io"
  gw_getEvent :: "jsstring option \<Rightarrow> jsstring option \<Rightarrow> (jsstring, 'r) io"

definition text_result :: "jsstring \<Rightarrow> (tool_result, 'r) io" where
  "text_result text = ret \<lparr>content = [TextContent text], isError = None\<rparr>"

text \<open>The handler of \<open>CallToolRequestSchema\<close> (index.ts, lines 659-781), over the
  operations it calls.\<close>

definition callToolHandler :: "'r gateway \<Rightarrow> jsstring \<Rightarrow> tool_args \<Rightarrow> (tool_result, 'r) io" where
  "callToolHandler gw name args =
     try_catch
       (if name = js ''list_events'' then
          bind (gw_listEvents gw
                  (Some (or_default (arg args ''maxResults'') (js ''10'')))
                  (Some (or_default (arg args ''calendarId'') (js ''primary'')))
                  (Some (or_default (arg args ''timeMin'') []))
                  (Some (or_default (arg args ''timeMax'') []))) text_result
        else if name = js ''create_event'' then
          bind (gw_createEvent gw
                  (Some (or_default (arg args ''summary'') []))
                  (Some (or_default (arg args ''start'') []))
                  (Some (or_default (arg args ''end'') []))
                  (Some (or_default (arg args ''description'') []))
                  (Some (or_default (arg args ''location'') []))
                  (Some (or_default (arg args ''attendees'') []))
                  (Some (or_default (arg args ''calendarId'') (js ''primary'')))) text_result
        else if name = js ''update_event'' then
          bind (gw_updateEvent gw
                  (Some (or_default (arg args ''eventId'') []))
                  (Some (or_default (arg args ''summary'') []))
                  (Some (or_default (arg args ''start'') []))
                  (Some (or_default (arg args ''end'') []))
                  (Some (or_default (arg args ''description'') []))
                  (Some (or_default (arg args ''location'') []))
                  (Some (or_default (arg args ''calendarId'') (js ''primary'')))) text_result
        else if name = js ''delete_event'' then
          bind (gw_deleteEvent gw
                  (Some (or_default (arg args ''eventId'') []))
                  (Some (or_default (arg args ''calendarId'') (js ''primary'')))) text_result
        else if name = js ''search_events'' then
          bind (gw_searchEvents gw
                  (Some (or_default (arg args ''query'') []))
                  (Some (or_default (arg args ''maxResults'') (js ''10'')))
                  (Some (or_default (arg args ''calendarId'') (js ''primary'')))) text_result
        else if name = js ''list_calendars'' then
          bind (gw_listCalendars gw) text_result
        else if name = js ''get_event'' then
          bind (gw_getEvent gw
                  (Some (or_default (arg args ''eventId'') []))
                  (Some (or_default (arg args ''calendarId'') (js ''primary'')))) text_result
        else throw (ErrorObj (js ''Unknown tool: '' @ name)))
       (\<lambda>error. ret \<lparr>content = [TextContent (formatError error)], isError = Some True\<rparr>)"

text \<open>The handler as the server registers it: over the tool implementations above.\<close>

definition gateway :: "'r env \<Rightarrow> 'r gateway" where
  "gateway env =
     \<lparr>gw_listEvents = listEvents env,
      gw_createEvent = createEvent env,
      gw_updateEvent = updateEvent env,
      gw_deleteEvent = deleteEvent env,
      gw_searchEvents = searchEvents env,
      gw_listCalendars = listCalendars env,
      gw_getEvent = getEvent env\<rparr>"

definition callTool :: "'r env \<Rightarrow> jsstring \<Rightarrow> tool_args \<Rightarrow> (tool_result, 'r) io" where
  "callTool env = callToolHandler (gateway env)"

section \<open>Notions of the specification\<close>

text \<open>A required input that is missing, empty, or empty after trimming.\<close>

definition blank :: "jsstring option \<Rightarrow> bool" where
  "blank v = (case v of None \<Rightarrow> True | Some s \<Rightarrow> trim s = [])"

text \<open>An optional input that is missing or empty.\<close>

definition absent :: "jsstring option \<Rightarrow> bool" where
  "absent v = (case v of None \<Rightarrow> True | Some s \<Rightarrow> s = [])"

text \<open>An optional date input that is missing, empty, or a date the runtime accepts.\<close>

definition valid_or_absent :: "'r env \<Rightarrow> jsstring option \<Rightarrow> bool" where
  "valid_or_absent env v =
     (case v of None \<Rightarrow> True | Some s \<Rightarrow> s = [] \<or> date_to_iso env s \<noteq> None)"

text \<open>A \<open>maxResults\<close> input that is omitted or does not parse as a number.\<close>

definition non_numeric :: "jsstring option \<Rightarrow> bool" where
  "non_numeric v = (case v of None \<Rightarrow> True | Some s \<Rightarrow> parseInt s = None)"

text \<open>The failure report of a required input that failed validation.\<close>

definition validation_failure :: "string \<Rightarrow> jsstring" where
  "validation_failure name = formatError (ErrorObj (js name @ js '' is required''))"

text \<open>The prefix that marks a failure report.\<close>

definition failure_prefix :: jsstring where
  "failure_prefix = glyph_cross @ js '' Error: ''"

text \<open>The operation a recognised tool name delegates to, on the arguments the handler
  extracts for it (the last branch stands for \<open>get_event\<close>; the function is used for
  recognised names only).\<close>

definition gateway_call :: "'r gateway \<Rightarrow> jsstring \<Rightarrow> tool_args \<Rightarrow> (jsstring, 'r) io" where
  "gateway_call gw name args =
     (if name = js ''list_events'' then
        gw_listEvents gw
          (Some (or_default (arg args ''maxResults'') (js ''10'')))
          (Some (or_default (arg args ''calendarId'') (js ''primary'')))
          (Some (or_default (arg args ''timeMin'') []))
          (Some (or_default (arg args ''timeMax'') []))
      else if name = js ''create_event'' then
        gw_createEvent gw
          (Some (or_default (arg args ''summary'') []))
          (Some (or_default (arg args ''start'') []))
          (Some (or_default (arg args ''end'') []))
          (Some (or_default (arg args ''description'') []))
          (Some (or_default (arg args ''location'') []))
          (Some (or_default (arg args ''attendees'') []))
          (Some (or_default (arg args ''calendarId'') (js ''primary'')))
      else if name = js ''update_event'' then
        gw_updateEvent gw
          (Some (or_default (arg args ''eventId'') []))
          (Some (or_default (arg args ''summary'') []))
          (Some (or_default (arg args ''start'') []))
          (Some (or_default (arg args ''end'') []))
          (Some (or_default (arg args ''description'') []))
          (Some (or_default (arg args ''location'') []))
          (Some (or_default (arg args ''calendarId'') (js ''primary'')))
      else if name = js ''delete_event'' then
        gw_deleteEvent gw
          (Some (or_default (arg args ''eventId'') []))
          (Some (or_default (arg args ''calendarId'') (js ''primary'')))
      else if name = js ''search_events'' then
        gw_searchEvents gw
          (Some (or_default (arg args ''query'') []))
          (Some (or_default (arg args ''maxResults'') (js ''10'')))
          (Some (or_default (arg args ''calendarId'') (js ''primary'')))
      else if name = js ''list_calendars'' then gw_listCalendars gw
      else
        gw_getEvent gw
          (Some (or_default (arg args ''eventId'') []))
          (Some (or_default (arg args ''calendarId'') (js ''primary''))))"

text \<open>The process serving a sequence of tool calls, one at a time; the surroundings
  (files, clock, service) may differ from call to call.\<close>

definition serve :: "('r env \<times> jsstring \<times> tool_args) list \<Rightarrow> 'r world \<Rightarrow> 'r world" where
  "serve requests w =
     foldl (\<lambda>w' (env, name, args). snd (callTool env name args w')) w requests"

text \<open>A computation that, started with the handle \<open>a\<close> cached, keeps it cached and reads
  no file.\<close>

definition cache_kept :: "oauth_client \<Rightarrow> ('a, 'r) io \<Rightarrow> bool" where
  "cache_kept a m =
     (\<forall>w. auth w = Some a \<longrightarrow>
        auth (snd (m w)) = Some a \<and> file_reads (snd (m w)) = file_reads w)"

section \<open>A sample environment\<close>

text \<open>
  A small in-memory calendar service, two credential files and a clock, on which the
  operations are evaluated at concrete inputs. The service keeps a list of events.
\<close>

definition sample_time :: "string \<Rightarrow> event_time" where
  "sample_time t = \<lparr>et_date = None, et_dateTime = Some (js t), et_timeZone = Some (js ''UTC'')\<rparr>"

definition sample_event :: event where
  "sample_event =
     \<lparr>ev_id = Some (js ''evt1''),
      ev_summary = Some (js ''Budget review''),
      ev_start = Some (sample_time ''2025-11-27T14:00:00.000Z''),
      ev_end = Some (sample_time ''2025-11-27T15:00:00.000Z''),
      ev_status = Some (js ''confirmed''),
      ev_description = Some (js ''Quarterly numbers''),
      ev_location = Some (js ''Room 4''),
      ev_attendees = None,
      ev_conferenceData = None,
      ev_htmlLink = Some (js ''https://calendar.example/evt1'')\<rparr>"

definition not_found :: thrown where
  "not_found = ErrorObj (js ''Not Found'')"

definition sample_get :: "oauth_client \<Rightarrow> jsstring \<Rightarrow> jsstring \<Rightarrow> event list \<Rightarrow> (thrown + event) \<times> event list" where
  "sample_get c calendarId eventId store =
     (case find (\<lambda>e. ev_id e = Some eventId) store of
        None \<Rightarrow> (Inl not_found, store)
      | Some e \<Rightarrow> (Inr e, store))"

definition sample_update ::
  "oauth_client \<Rightarrow> jsstring \<Rightarrow> jsstring \<Rightarrow> event_body \<Rightarrow> event list \<Rightarrow> (thrown + event) \<times> event list" where
  "sample_update c calendarId eventId body store =
     (case find (\<lambda>e. ev_id e = Some eventId) store of
        None \<Rightarrow> (Inl not_found, store)
      | Some e \<Rightarrow>
          (let e' = e\<lparr>ev_summary := eb_summary body, ev_start := eb_start body,
                      ev_end := eb_end body, ev_description := eb_description body,
                      ev_location := eb_location body, ev_attendees := None\<rparr>
           in (Inr e', map (\<lambda>x. if ev_id x = Some eventId then e' else x) store)))"

definition sample_insert ::
  "oauth_client \<Rightarrow> jsstring \<Rightarrow> event_body \<Rightarrow> event list \<Rightarrow> (thrown + event) \<times> event list" where
  "sample_insert c calendarId body store =
     (let e = \<lparr>ev_id = Some (js ''evt'' @ show_nat (Suc (length store))),
               ev_summary = eb_summary body, ev_start = eb_start body, ev_end = eb_end body,
               ev_status = Some (js ''confirmed''), ev_description = eb_description body,
               ev_location = eb_location body, ev_attendees = None,
               ev_conferenceData = None, ev_htmlLink = None\<rparr>
      in (Inr e, store @ [e]))"

definition sample_delete ::
  "oauth_client \<Rightarrow> jsstring \<Rightarrow> jsstring \<Rightarrow> event list \<Rightarrow> (thrown + unit) \<times> event list" where
  "sample_delete c calendarId eventId store =
     (case find (\<lambda>e. ev_id e = Some eventId) store of
        None \<Rightarrow> (Inl not_found, store)
      | Some e \<Rightarrow> (Inr (), filter (\<lambda>x. ev_id x \<noteq> Some eventId) store))"

definition sample_list ::
  "oauth_client \<Rightarrow> list_params \<Rightarrow> event list \<Rightarrow> (thrown + event list option) \<times> event list" where
  "sample_list c params store = (Inr (Some (take (nat (lp_maxResults params)) store)), store)"

definition sample_calendars ::
  "oauth_client \<Rightarrow> event list \<Rightarrow> (thrown + calendar_entry list option) \<times> event list" where
  "sample_calendars c store =
     (Inr (Some [\<lparr>cal_id = Some (js ''primary''), cal_summary = Some (js ''Work''),
                  cal_description = None, cal_primary = Some True,
                  cal_accessRole = Some (js ''owner'')\<rparr>]), store)"

definition sample_read_file :: "jsstring \<Rightarrow> thrown + jsstring" where
  "sample_read_file path =
     (if path = js ''/app/credentials/credentials.json'' then Inr (js ''credentials'')
      else if path = js ''/app/credentials/token.json'' then Inr (js ''token'')
      else Inl (ErrorObj (js ''ENOENT: no such file or directory'')))"

definition sample_json_parse :: "jsstring \<Rightarrow> thrown + json" where
  "sample_json_parse s =
     (if s = js ''credentials'' then
        Inr (JObj [(js ''installed'',
                    JObj [(js ''client_id'', JStr (js ''id'')),
                          (js ''client_secret'', JStr (js ''secret'')),
                          (js ''redirect_uris'', JArr [JStr (js ''http://localhost'')])])])
      else if s = js ''token'' then Inr (JObj [(js ''access_token'', JStr (js ''t''))])
      else Inl (ErrorObj (js ''Unexpected token'')))"

definition sample_date_to_iso :: "jsstring \<Rightarrow> jsstring option" where
  "sample_date_to_iso s =
     (if s = js ''2025-11-27T14:00:00Z'' then Some (js ''2025-11-27T14:00:00.000Z'')
      else if s = js ''2025-11-27T15:00:00Z'' then Some (js ''2025-11-27T15:00:00.000Z'')
      else None)"

definition sample_env :: "event list env" where
  "sample_env =
     \<lparr>env_credentials_path = None,
      env_token_path = None,
      read_file = sample_read_file,
      json_parse = sample_json_parse,
      date_to_iso = sample_date_to_iso,
      now_iso = js ''2025-11-01T09:00:00.000Z'',
      svc_events_list = sample_list,
      svc_events_insert = sample_insert,
      svc_events_get = sample_get,
      svc_events_update = sample_update,
      svc_events_delete = sample_delete,
      svc_calendarList_list = sample_calendars\<rparr>"

definition sample_client :: oauth_client where
  "sample_client =
     \<lparr>oc_client_id = Some (JStr (js ''id'')),
      oc_client_secret = Some (JStr (js ''secret'')),
      oc_redirect_uri = Some (JStr (js ''http://localhost'')),
      oc_credentials = JObj [(js ''access_token'', JStr (js ''t''))]\<rparr>"

definition sample_world :: "event list world" where
  "sample_world = \<lparr>auth = None, file_reads = [], calls = [], remote = [sample_event]\<rparr>"

text \<open>An operation table whose \<open>getEvent\<close> raises, the others being those of the
  sample environment.\<close>

definition raising_gateway :: "event list gateway" where
  "raising_gateway = (gateway sample_env)\<lparr>gw_getEvent := (\<lambda>eventId calendarId. throw not_found)\<rparr>"

section \<open>Basic facts about the computations\<close>

lemma trim_Nil: "trim [] = []"
  by (simp add: trim_def)

lemma validateRequired_blank:
  "blank v \<Longrightarrow>
   validateRequired (Some (param_default v [])) name = Inl (ErrorObj (name @ js '' is required''))"
  by (auto simp: blank_def validateRequired_def param_default_def trim_Nil split: option.splits)

lemma validateRequired_not_blank:
  "\<not> blank v \<Longrightarrow>
   validateRequired (Some (param_default v [])) name = Inr (trim (param_default v []))"
  by (auto simp: blank_def validateRequired_def param_default_def trim_Nil split: option.splits)

lemma bind_lift_Inl: "bind (lift (Inl e)) f w = (Inl e, w)"
  by (simp add: bind_def lift_def)

lemma bind_lift_Inr: "bind (lift (Inr x)) f w = f x w"
  by (simp add: bind_def lift_def)

lemma try_catch_ret_handler:
  "try_catch m (\<lambda>e. ret (h e)) w =
     (case m w of (Inl e, w') \<Rightarrow> (Inr (h e), w') | (Inr x, w') \<Rightarrow> (Inr x, w'))"
  by (simp add: try_catch_def ret_def split: prod.splits sum.splits)

lemma try_catch_ret_total: "\<exists>x w'. try_catch m (\<lambda>e. ret (h e)) w = (Inr x, w')"
  by (simp add: try_catch_ret_handler split: prod.splits sum.splits)

lemma formatError_prefix: "\<exists>msg. formatError e = failure_prefix @ msg"
  by (cases e) (simp_all add: failure_prefix_def)

subsection \<open>Authentication\<close>

lemma initializeAuth_cached: "auth w = Some a \<Longrightarrow> initializeAuth env w = (Inr a, w)"
  by (simp add: initializeAuth_def)

lemma initializeAuth_fresh:
  assumes "auth w = None" "initializeAuth env w = (Inr a, w1)"
  shows "w1 = w\<lparr>auth := Some a,
                 file_reads := file_reads w @ [CREDENTIALS_PATH env, TOKEN_PATH env]\<rparr>"
  using assms
  by (auto simp: initializeAuth_def try_catch_def bind_def fs_readFile_def lift_def throw_def
      split: prod.splits sum.splits)

lemma initializeAuth_frame:
  assumes "initializeAuth env w = (r, w1)"
  shows "calls w1 = calls w \<and> remote w1 = remote w"
  using assms
  by (auto simp: initializeAuth_def try_catch_def bind_def fs_readFile_def lift_def throw_def
      split: prod.splits sum.splits option.splits)

lemma initializeAuth_result:
  assumes "initializeAuth env w = (r, w1)"
  shows "(case r of Inl e \<Rightarrow> e = auth_error \<and> auth w1 = None | Inr a \<Rightarrow> auth w1 = Some a)"
  using assms
  by (auto simp: initializeAuth_def try_catch_def bind_def fs_readFile_def lift_def throw_def
      split: prod.splits sum.splits option.splits)

subsection \<open>The handler over its operations\<close>

lemma handler_recognised:
  assumes "name \<in> set tool_names"
  shows "callToolHandler gw name args =
           try_catch (bind (gateway_call gw name args) text_result)
             (\<lambda>error. ret \<lparr>content = [TextContent (formatError error)], isError = Some True\<rparr>)"
proof -
  have "name = js ''list_events'' \<or> name = js ''create_event'' \<or> name = js ''update_event'' \<or>
        name = js ''delete_event'' \<or> name = js ''search_events'' \<or>
        name = js ''list_calendars'' \<or> name = js ''get_event''"
    using assms by (simp add: tool_names_def)
  then show ?thesis
    by (auto simp: callToolHandler_def gateway_call_def js_def)
qed

lemma handler_unknown:
  assumes "name \<notin> set tool_names"
  shows "callToolHandler gw name args w =
           (Inr \<lparr>content = [TextContent (formatError (ErrorObj (js ''Unknown tool: '' @ name)))],
                 isError = Some True\<rparr>, w)"
  using assms
  by (simp add: callToolHandler_def tool_names_def try_catch_ret_handler throw_def)

lemma handler_returns:
  "gateway_call gw name args w = (Inr t, w') \<Longrightarrow> name \<in> set tool_names \<Longrightarrow>
   callToolHandler gw name args w = (Inr \<lparr>content = [TextContent t], isError = None\<rparr>, w')"
  by (simp add: handler_recognised try_catch_ret_handler bind_def text_result_def ret_def)

lemma handler_raises:
  "gateway_call gw name args w = (Inl e, w') \<Longrightarrow> name \<in> set tool_names \<Longrightarrow>
   callToolHandler gw name args w =
     (Inr \<lparr>content = [TextContent (formatError e)], isError = Some True\<rparr>, w')"
  by (simp add: handler_recognised try_catch_ret_handler bind_def text_result_def ret_def)

lemma gateway_never_raises:
  "\<exists>t w'. gateway_call (gateway env) name args w = (Inr t, w')"
  by (simp add: gateway_call_def gateway_def listEvents_def createEvent_def updateEvent_def
      deleteEvent_def searchEvents_def listCalendars_def getEvent_def Let_def
      try_catch_ret_total)

subsection \<open>The cached handle survives every operation\<close>

lemma cache_kept_ret: "cache_kept a (ret x)"
  by (simp add: cache_kept_def ret_def)

lemma cache_kept_throw: "cache_kept a (throw e)"
  by (simp add: cache_kept_def throw_def)

lemma cache_kept_lift: "cache_kept a (lift r)"
  by (simp add: cache_kept_def lift_def)

lemma cache_kept_bind:
  "cache_kept a m \<Longrightarrow> (\<And>x. cache_kept a (f x)) \<Longrightarrow> cache_kept a (bind m f)"
  unfolding cache_kept_def bind_def
  by (auto split: prod.splits sum.splits)

lemma cache_kept_try_catch:
  "cache_kept a m \<Longrightarrow> (\<And>e. cache_kept a (h e)) \<Longrightarrow> cache_kept a (try_catch m h)"
  unfolding cache_kept_def try_catch_def
  by (auto split: prod.splits sum.splits)

lemma cache_kept_remote_call: "cache_kept a (remote_call c f)"
  by (simp add: cache_kept_def remote_call_def split: prod.splits)

lemma cache_kept_getCalendar: "cache_kept a (getCalendar env)"
  by (simp add: cache_kept_def getCalendar_def initializeAuth_cached)

lemma cache_kept_if: "cache_kept a m \<Longrightarrow> cache_kept a n \<Longrightarrow> cache_kept a (if c then m else n)"
  by simp

lemmas cache_kept_intros =
  cache_kept_ret cache_kept_throw cache_kept_lift cache_kept_bind cache_kept_try_catch
  cache_kept_remote_call cache_kept_getCalendar cache_kept_if

lemma cache_kept_listEvents: "cache_kept a (listEvents env m c t1 t2)"
  unfolding listEvents_def Let_def events_list_def
  by (intro cache_kept_intros)

lemma cache_kept_createEvent: "cache_kept a (createEvent env s st e d l at c)"
  unfolding createEvent_def Let_def events_insert_def
  by (intro cache_kept_intros)

lemma cache_kept_updateEvent: "cache_kept a (updateEvent env i s st e d l c)"
  unfolding updateEvent_def Let_def events_get_def events_update_def
  by (intro cache_kept_intros)

lemma cache_kept_deleteEvent: "cache_kept a (deleteEvent env i c)"
  unfolding deleteEvent_def Let_def events_delete_def
  by (intro cache_kept_intros)

lemma cache_kept_searchEvents: "cache_kept a (searchEvents env q m c)"
  unfolding searchEvents_def Let_def events_list_def
  by (intro cache_kept_intros)

lemma cache_kept_listCalendars: "cache_kept a (listCalendars env)"
  unfolding listCalendars_def Let_def calendarList_list_def
  by (intro cache_kept_intros)

lemma cache_kept_getEvent: "cache_kept a (getEvent env i c)"
  unfolding getEvent_def Let_def events_get_def
  by (intro cache_kept_intros)

lemma cache_kept_callTool: "cache_kept a (callTool env name args)"
  unfolding callTool_def callToolHandler_def gateway_def text_result_def
  by (simp add: cache_kept_intros cache_kept_listEvents cache_kept_createEvent
      cache_kept_updateEvent cache_kept_deleteEvent cache_kept_searchEvents
      cache_kept_listCalendars cache_kept_getEvent)

lemma serve_keeps_cache:
  "auth w = Some a \<Longrightarrow>
   auth (serve requests w) = Some a \<and> file_reads (serve requests w) = file_reads w"
proof (induction requests arbitrary: w)
  case Nil
  then show ?case by (simp add: serve_def)
next
  case (Cons r rs)
  obtain env name args where r: "r = (env, name, args)" by (cases r)
  let ?w = "snd (callTool env name args w)"
  from Cons.prems cache_kept_callTool [of a env name args]
  have k: "auth ?w = Some a" "file_reads ?w = file_reads w"
    by (simp_all add: cache_kept_def)
  have "serve (r # rs) w = serve rs ?w"
    by (simp add: serve_def r)
  with Cons.IH [OF k(1)] k(2) show ?case by simp
qed

subsection \<open>The sample environment\<close>

lemma sample_blank: "blank None" "blank (Some [])" "blank (Some (js ''  ''))"
  by (simp_all add: blank_def trim_def is_whitespace_def js_def)

lemma sample_paths:
  "CREDENTIALS_PATH sample_env = js ''/app/credentials/credentials.json''"
  "TOKEN_PATH sample_env = js ''/app/credentials/token.json''"
  by (simp_all add: CREDENTIALS_PATH_def TOKEN_PATH_def sample_env_def or_default_def)

lemma sample_initializeAuth:
  "initializeAuth sample_env sample_world =
     (Inr sample_client,
      sample_world\<lparr>auth := Some sample_client,
                   file_reads := [js ''/app/credentials/credentials.json'',
                                  js ''/app/credentials/token.json'']\<rparr>)"
  by code_simp

subsection \<open>Calendar access and remote calls\<close>

lemma getCalendar_frame:
  "getCalendar env w = (r, w1) \<Longrightarrow> calls w1 = calls w \<and> remote w1 = remote w"
  by (simp add: getCalendar_def initializeAuth_frame)

lemma getCalendar_result:
  "getCalendar env w = (r, w1) \<Longrightarrow>
   (case r of Inl e \<Rightarrow> e = auth_error \<and> auth w1 = None | Inr a \<Rightarrow> auth w1 = Some a)"
  by (simp add: getCalendar_def initializeAuth_result)

lemma maxResultsNum_default: "maxResultsNum (js ''10'') = 10"
  by (simp add: maxResultsNum_def parseInt_def js_def strip_sign_def strip_radix_prefix_def
      is_whitespace_def is_radix_digit_def digit_value_def)

lemma maxResultsNum_NaN: "parseInt s = None \<Longrightarrow> maxResultsNum s = 10"
  by (simp add: maxResultsNum_def)

lemma maxResultsNum_zero: "parseInt s = Some 0 \<Longrightarrow> maxResultsNum s = 10"
  by (simp add: maxResultsNum_def)

lemma remote_call_world:
  "remote_call c f w = (r, w') \<Longrightarrow>
   calls w' = calls w @ [c] \<and> auth w' = auth w \<and> file_reads w' = file_reads w \<and>
   (r, remote w') = f (remote w)"
  by (auto simp: remote_call_def split: prod.splits)

lemma bind_getCalendar_Inr:
  "getCalendar env w = (Inr c, w1) \<Longrightarrow> bind (getCalendar env) f w = f c w1"
  by (simp add: bind_def)

lemma bind_getCalendar_Inl:
  "getCalendar env w = (Inl e, w1) \<Longrightarrow> bind (getCalendar env) f w = (Inl e, w1)"
  by (simp add: bind_def)

lemma toISOString_invalid:
  "date_to_iso env s = None \<Longrightarrow> toISOString env s = Inl (ErrorObj (js ''Invalid time value''))"
  by (simp add: toISOString_def)

lemma toISOString_valid: "date_to_iso env s = Some t \<Longrightarrow> toISOString env s = Inr t"
  by (simp add: toISOString_def)

lemma snd_handler_case:
  "snd (case p of (Inl e, w') \<Rightarrow> (Inr (h e), w') | (Inr x, w') \<Rightarrow> (Inr x, w')) = snd p"
  by (simp split: prod.splits sum.splits)

lemma fst_handler_case:
  "fst (case p of (Inl e, w') \<Rightarrow> (Inr (h e), w') | (Inr x, w') \<Rightarrow> (Inr x, w')) =
     (case fst p of Inl e \<Rightarrow> Inr (h e) | Inr x \<Rightarrow> Inr x)"
  by (simp split: prod.splits sum.splits)

lemma snd_bind_pure: "(\<And>x w'. snd (k x w') = w') \<Longrightarrow> snd (bind m k w) = snd (m w)"
  by (simp add: bind_def split: prod.splits sum.splits)

lemma calls_remote_call: "calls (snd (remote_call c f w)) = calls w @ [c]"
  by (simp add: remote_call_def split: prod.splits)

lemma timeMin_value:
  assumes "valid_or_absent env v"
  shows "\<exists>t. (if param_default v [] \<noteq> [] then toISOString env (param_default v [])
               else Inr (now_iso env)) = Inr t \<and>
              (absent v \<longrightarrow> t = now_iso env)"
  using assms
  by (auto simp: valid_or_absent_def absent_def param_default_def toISOString_def
      split: option.splits)

lemma timeMax_value:
  assumes "valid_or_absent env v"
  shows "\<exists>t. (if param_default v [] \<noteq> [] then map_sum id Some (toISOString env (param_default v []))
               else Inr None) = Inr t \<and>
              (absent v \<longrightarrow> t = None)"
  using assms
  by (auto simp: valid_or_absent_def absent_def param_default_def toISOString_def
      split: option.splits)

lemma listEvents_calls:
  assumes gc: "getCalendar env w = (Inr calendar, w1)"
      and tmin: "(if param_default timeMin [] \<noteq> [] then toISOString env (param_default timeMin [])
                  else Inr (now_iso env)) = Inr t1"
      and tmax: "(if param_default timeMax [] \<noteq> []
                  then map_sum id Some (toISOString env (param_default timeMax []))
                  else Inr None) = Inr t2"
  shows "calls (snd (listEvents env maxResults calendarId timeMin timeMax w)) =
           calls w @
           [EventsList \<lparr>lp_calendarId = param_default calendarId (js ''primary''), lp_q = None,
                        lp_maxResults = maxResultsNum (param_default maxResults (js ''10'')),
                        lp_singleEvents = True, lp_orderBy = js ''startTime'',
                        lp_timeMin = Some t1, lp_timeMax = t2\<rparr>]"
  using getCalendar_frame [OF gc]
  by (simp add: listEvents_def Let_def try_catch_ret_handler snd_handler_case
      bind_getCalendar_Inr [OF gc] tmin tmax bind_lift_Inr snd_bind_pure ret_def
      events_list_def calls_remote_call)

lemma searchEvents_calls:
  assumes gc: "getCalendar env w = (Inr calendar, w1)" and q: "\<not> blank query"
  shows "calls (snd (searchEvents env query maxResults calendarId w)) =
           calls w @
           [EventsList \<lparr>lp_calendarId = param_default calendarId (js ''primary''),
                        lp_q = Some (param_default query []),
                        lp_maxResults = maxResultsNum (param_default maxResults (js ''10'')),
                        lp_singleEvents = True, lp_orderBy = js ''startTime'',
                        lp_timeMin = None, lp_timeMax = None\<rparr>]"
  using getCalendar_frame [OF gc]
  by (simp add: searchEvents_def Let_def try_catch_ret_handler snd_handler_case
      validateRequired_not_blank [OF q]
      bind_getCalendar_Inr [OF gc] bind_lift_Inr snd_bind_pure ret_def
      events_list_def calls_remote_call)

lemma initializeAuth_fst_indep:
  "auth w = None \<Longrightarrow> auth w' = None \<Longrightarrow> fst (initializeAuth env w') = fst (initializeAuth env w)"
  by (auto simp: initializeAuth_def try_catch_def bind_def fs_readFile_def lift_def throw_def
      split: prod.splits sum.splits option.splits)

lemma bind_ret:
  "bind m (\<lambda>x. ret (f x)) w =
     (case m w of (Inl e, w') \<Rightarrow> (Inl e, w') | (Inr x, w') \<Rightarrow> (Inr (f x), w'))"
  by (simp add: bind_def ret_def split: prod.splits sum.splits)

lemma getEvent_auth_failed:
  assumes nb: "\<not> blank eventId" and gc: "getCalendar env w = (Inl e, wa)"
  shows "getEvent env eventId calendarId w = (Inr (formatError e), wa)"
  by (simp add: getEvent_def Let_def validateRequired_not_blank [OF nb] bind_lift_Inr
      try_catch_ret_handler bind_getCalendar_Inl [OF gc])

lemma getEvent_after_auth:
  assumes nb: "\<not> blank eventId" and gc: "getCalendar env w = (Inr c, wa)"
  shows "getEvent env eventId calendarId w =
           (case events_get env c (param_default calendarId (js ''primary''))
                   (param_default eventId []) wa of
              (Inl e, wb) \<Rightarrow> (Inr (formatError e), wb)
            | (Inr ev, wb) \<Rightarrow> (Inr (event_details ev), wb))"
  by (simp add: getEvent_def Let_def validateRequired_not_blank [OF nb] bind_lift_Inr
      try_catch_ret_handler bind_getCalendar_Inr [OF gc] bind_ret
      split: prod.splits sum.splits)

lemma events_get_world:
  assumes "events_get env c cid eid w = (r, w')"
  shows "auth w' = auth w \<and> r = fst (svc_events_get env c cid eid (remote w)) \<and>
         remote w' = snd (svc_events_get env c cid eid (remote w))"
  using assms by (auto simp: events_get_def remote_call_def split: prod.splits)

lemma listEvents_auth_failed:
  assumes gc: "getCalendar env w = (Inl e, w1)"
  shows "listEvents env maxResults calendarId timeMin timeMax w = (Inr (formatError e), w1)"
  by (simp add: listEvents_def Let_def try_catch_ret_handler bind_getCalendar_Inl [OF gc])

lemma listEvents_bad_timeMin:
  assumes gc: "getCalendar env w = (Inr c, w1)"
      and tmin: "(if param_default timeMin [] \<noteq> [] then toISOString env (param_default timeMin [])
                  else Inr (now_iso env)) = Inl e"
  shows "listEvents env maxResults calendarId timeMin timeMax w = (Inr (formatError e), w1)"
  by (simp add: listEvents_def Let_def try_catch_ret_handler bind_getCalendar_Inr [OF gc]
      tmin bind_lift_Inl)

lemma listEvents_bad_timeMax:
  assumes gc: "getCalendar env w = (Inr c, w1)"
      and tmin: "(if param_default timeMin [] \<noteq> [] then toISOString env (param_default timeMin [])
                  else Inr (now_iso env)) = Inr t1"
      and tmax: "(if param_default timeMax [] \<noteq> []
                  then map_sum id Some (toISOString env (param_default timeMax []))
                  else Inr None) = Inl e"
  shows "listEvents env maxResults calendarId timeMin timeMax w = (Inr (formatError e), w1)"
  by (simp add: listEvents_def Let_def try_catch_ret_handler bind_getCalendar_Inr [OF gc]
      tmin tmax bind_lift_Inl bind_lift_Inr)

lemma absent_param_default: "absent v \<Longrightarrow> param_default v [] = []"
  by (simp add: absent_def param_default_def split: option.splits)

lemma listEvents_calls_cases:
  "calls (snd (listEvents env maxResults calendarId timeMin timeMax w)) = calls w \<or>
   (\<exists>t1 t2. calls (snd (listEvents env maxResults calendarId timeMin timeMax w)) =
        calls w @
        [EventsList \<lparr>lp_calendarId = param_default calendarId (js ''primary''), lp_q = None,
                     lp_maxResults = maxResultsNum (param_default maxResults (js ''10'')),
                     lp_singleEvents = True, lp_orderBy = js ''startTime'',
                     lp_timeMin = Some t1, lp_timeMax = t2\<rparr>] \<and>
      (absent timeMin \<longrightarrow> t1 = now_iso env) \<and> (absent timeMax \<longrightarrow> t2 = None))"
proof -
  let ?A = "if param_default timeMin [] \<noteq> [] then toISOString env (param_default timeMin [])
            else Inr (now_iso env)"
  let ?B = "if param_default timeMax [] \<noteq> []
            then map_sum id Some (toISOString env (param_default timeMax []))
            else Inr None"
  obtain r w1 where gc: "getCalendar env w = (r, w1)"
    by (cases "getCalendar env w")
  note fr = getCalendar_frame [OF gc]
  show ?thesis
  proof (cases r)
    case (Inl e)
    with gc listEvents_auth_failed [of env w e w1] fr show ?thesis by simp
  next
    case c: (Inr c)
    with gc have gc': "getCalendar env w = (Inr c, w1)" by simp
    show ?thesis
    proof (cases ?A)
      case (Inl e)
      from listEvents_bad_timeMin [OF gc' Inl] fr show ?thesis by simp
    next
      case a: (Inr t1)
      have n: "absent timeMin \<longrightarrow> t1 = now_iso env"
        using a by (auto simp: absent_param_default)
      show ?thesis
      proof (cases ?B)
        case (Inl e)
        from listEvents_bad_timeMax [OF gc' a Inl] fr show ?thesis by simp
      next
        case b: (Inr t2)
        have m: "absent timeMax \<longrightarrow> t2 = None"
          using b by (auto simp: absent_param_default)
        from listEvents_calls [OF gc' a b] n m show ?thesis by blast
      qed
    qed
  qed
qed

lemma searchEvents_calls_cases:
  "calls (snd (searchEvents env query maxResults calendarId w)) = calls w \<or>
   calls (snd (searchEvents env query maxResults calendarId w)) =
     calls w @
     [EventsList \<lparr>lp_calendarId = param_default calendarId (js ''primary''),
                  lp_q = Some (param_default query []),
                  lp_maxResults = maxResultsNum (param_default maxResults (js ''10'')),
                  lp_singleEvents = True, lp_orderBy = js ''startTime'',
                  lp_timeMin = None, lp_timeMax = None\<rparr>]"
proof (cases "blank query")
  case True
  then have "searchEvents env query maxResults calendarId w =
               (Inr (validation_failure ''query''), w)"
    by (simp add: searchEvents_def Let_def validateRequired_blank bind_lift_Inl
        try_catch_ret_handler validation_failure_def)
  then show ?thesis by simp
next
  case nb: False
  obtain r w1 where gc: "getCalendar env w = (r, w1)"
    by (cases "getCalendar env w")
  show ?thesis
  proof (cases r)
    case (Inl e)
    with gc have gc': "getCalendar env w = (Inl e, w1)" by simp
    have "searchEvents env query maxResults calendarId w = (Inr (formatError e), w1)"
      by (simp add: searchEvents_def Let_def validateRequired_not_blank [OF nb] bind_lift_Inr
          try_catch_ret_handler bind_getCalendar_Inl [OF gc'])
    with getCalendar_frame [OF gc] show ?thesis by simp
  next
    case (Inr c)
    with gc have gc': "getCalendar env w = (Inr c, w1)" by simp
    from searchEvents_calls [OF gc' nb] show ?thesis by simp
  qed
qed

lemma snd_text_result: "snd (text_result t w) = w"
  by (simp add: text_result_def ret_def)

lemma snd_callTool_list_events:
  "snd (callTool env (js ''list_events'') args w) =
   snd (listEvents env
          (Some (or_default (arg args ''maxResults'') (js ''10'')))
          (Some (or_default (arg args ''calendarId'') (js ''primary'')))
          (Some (or_default (arg args ''timeMin'') []))
          (Some (or_default (arg args ''timeMax'') [])) w)"
  by (simp add: callTool_def callToolHandler_def gateway_def try_catch_ret_handler
      snd_handler_case snd_bind_pure snd_text_result)

lemma snd_callTool_search_events:
  "snd (callTool env (js ''search_events'') args w) =
   snd (searchEvents env
          (Some (or_default (arg args ''query'') []))
          (Some (or_default (arg args ''maxResults'') (js ''10'')))
          (Some (or_default (arg args ''calendarId'') (js ''primary''))) w)"
  by (simp add: callTool_def callToolHandler_def gateway_def try_catch_ret_handler
      snd_handler_case snd_bind_pure snd_text_result js_def)

lemma parseInt_Nil: "parseInt [] = None"
  by (simp add: parseInt_def strip_sign_def strip_radix_prefix_def js_def)

lemma maxResultsNum_or_default_NaN:
  "non_numeric v \<Longrightarrow> maxResultsNum (or_default v (js ''10'')) = 10"
  by (auto simp: non_numeric_def or_default_def maxResultsNum_default maxResultsNum_NaN
      split: option.splits)

lemma maxResultsNum_or_default_zero:
  "parseInt s = Some 0 \<Longrightarrow> maxResultsNum (or_default (Some s) (js ''10'')) = 10"
  by (auto simp: or_default_def maxResultsNum_default maxResultsNum_zero)

lemma absent_or_default: "absent v \<Longrightarrow> absent (Some (or_default v []))"
  by (simp add: absent_def or_default_def split: option.splits)

lemma tool_list_events_calls:
  "calls (snd (callTool env (js ''list_events'') args w)) = calls w \<or>
   (\<exists>p. calls (snd (callTool env (js ''list_events'') args w)) = calls w @ [EventsList p] \<and>
        lp_maxResults p = maxResultsNum (or_default (arg args ''maxResults'') (js ''10'')) \<and>
        (absent (arg args ''timeMin'') \<longrightarrow> lp_timeMin p = Some (now_iso env)) \<and>
        (absent (arg args ''timeMax'') \<longrightarrow> lp_timeMax p = None))"
  using listEvents_calls_cases [of env
      "Some (or_default (arg args ''maxResults'') (js ''10''))"
      "Some (or_default (arg args ''calendarId'') (js ''primary''))"
      "Some (or_default (arg args ''timeMin'') [])"
      "Some (or_default (arg args ''timeMax'') [])" w]
    absent_or_default [of "arg args ''timeMin''"] absent_or_default [of "arg args ''timeMax''"]
  by (elim disjE exE conjE) (auto simp: snd_callTool_list_events param_default_def)

lemma tool_search_events_calls:
  "calls (snd (callTool env (js ''search_events'') args w)) = calls w \<or>
   (\<exists>p. calls (snd (callTool env (js ''search_events'') args w)) = calls w @ [EventsList p] \<and>
        lp_maxResults p = maxResultsNum (or_default (arg args ''maxResults'') (js ''10'')))"
  using searchEvents_calls_cases [of env
      "Some (or_default (arg args ''query'') [])"
      "Some (or_default (arg args ''maxResults'') (js ''10''))"
      "Some (or_default (arg args ''calendarId'') (js ''primary''))" w]
  by (elim disjE) (auto simp: snd_callTool_search_events param_default_def)

section \<open>Validation of required inputs\<close>

text \<open>
  Claim C3. Every operation with a required textual input (\<open>eventId\<close> for \<open>updateEvent\<close>,
  \<open>deleteEvent\<close> and \<open>getEvent\<close>; \<open>query\<close> for \<open>searchEvents\<close>; \<open>summary\<close>, \<open>start\<close> and
  \<open>end\<close> for \<open>createEvent\<close>) returns a validation failure report when that input is
  missing, empty, or empty after trimming, and leaves the world as it was: no remote call is
  issued (and no file is read).
\<close>

theorem required_inputs_validated:
  "(blank eventId \<longrightarrow>
      updateEvent env eventId summary start end' description location calendarId w =
        (Inr (validation_failure ''eventId''), w) \<and>
      deleteEvent env eventId calendarId w = (Inr (validation_failure ''eventId''), w) \<and>
      getEvent env eventId calendarId w = (Inr (validation_failure ''eventId''), w)) \<and>
   (blank query \<longrightarrow>
      searchEvents env query maxResults calendarId w = (Inr (validation_failure ''query''), w)) \<and>
   (blank summary \<or> blank start \<or> blank end' \<longrightarrow>
      createEvent env summary start end' description location attendees calendarId w \<in>
        {(Inr (validation_failure ''summary''), w), (Inr (validation_failure ''start''), w),
         (Inr (validation_failure ''end''), w)})"
proof (intro conjI impI)
  assume b: "blank eventId"
  show "updateEvent env eventId summary start end' description location calendarId w =
        (Inr (validation_failure ''eventId''), w)"
    by (simp add: updateEvent_def Let_def validateRequired_blank [OF b] bind_lift_Inl
        try_catch_ret_handler validation_failure_def)
  show "deleteEvent env eventId calendarId w = (Inr (validation_failure ''eventId''), w)"
    by (simp add: deleteEvent_def Let_def validateRequired_blank [OF b] bind_lift_Inl
        try_catch_ret_handler validation_failure_def)
  show "getEvent env eventId calendarId w = (Inr (validation_failure ''eventId''), w)"
    by (simp add: getEvent_def Let_def validateRequired_blank [OF b] bind_lift_Inl
        try_catch_ret_handler validation_failure_def)
next
  assume b: "blank query"
  show "searchEvents env query maxResults calendarId w = (Inr (validation_failure ''query''), w)"
    by (simp add: searchEvents_def Let_def validateRequired_blank [OF b] bind_lift_Inl
        try_catch_ret_handler validation_failure_def)
next
  assume b: "blank summary \<or> blank start \<or> blank end'"
  show "createEvent env summary start end' description location attendees calendarId w \<in>
        {(Inr (validation_failure ''summary''), w), (Inr (validation_failure ''start''), w),
         (Inr (validation_failure ''end''), w)}"
  proof (cases "blank summary")
    case True
    then show ?thesis
      by (simp add: createEvent_def Let_def validateRequired_blank bind_lift_Inl
          try_catch_ret_handler validation_failure_def)
  next
    case s: False
    show ?thesis
    proof (cases "blank start")
      case True
      with s show ?thesis
        by (simp add: createEvent_def Let_def validateRequired_blank validateRequired_not_blank
            bind_lift_Inl bind_lift_Inr try_catch_ret_handler validation_failure_def)
    next
      case False
      with s b have "blank end'" by simp
      with s False show ?thesis
        by (simp add: createEvent_def Let_def validateRequired_blank validateRequired_not_blank
            bind_lift_Inl bind_lift_Inr try_catch_ret_handler validation_failure_def)
    qed
  qed
qed

theorem required_inputs_validated_witness:
  "blank (Some (js ''  '')) \<and> blank None \<and> blank (Some []) \<and>
   updateEvent sample_env (Some (js ''  '')) (Some []) (Some (js ''2025-11-27T14:00:00Z''))
       (Some (js ''2025-11-27T15:00:00Z'')) None None None sample_world =
     (Inr (validation_failure ''eventId''), sample_world) \<and>
   deleteEvent sample_env (Some (js ''  '')) None sample_world =
     (Inr (validation_failure ''eventId''), sample_world) \<and>
   getEvent sample_env (Some (js ''  '')) None sample_world =
     (Inr (validation_failure ''eventId''), sample_world) \<and>
   searchEvents sample_env None None None sample_world =
     (Inr (validation_failure ''query''), sample_world) \<and>
   createEvent sample_env (Some []) (Some (js ''2025-11-27T14:00:00Z''))
       (Some (js ''2025-11-27T15:00:00Z'')) None None None None sample_world \<in>
     {(Inr (validation_failure ''summary''), sample_world),
      (Inr (validation_failure ''start''), sample_world),
      (Inr (validation_failure ''end''), sample_world)}"
  using required_inputs_validated [where eventId = "Some (js ''  '')" and env = sample_env
      and w = sample_world and query = None and summary = "Some []"
      and start = "Some (js ''2025-11-27T14:00:00Z'')"
      and end' = "Some (js ''2025-11-27T15:00:00Z'')" and description = None
      and location = None and calendarId = None and maxResults = None and attendees = None]
    sample_blank
  by blast

section \<open>The handler never raises\<close>

text \<open>
  Claim C4. For each of the seven recognised tool names and every argument mapping,
  \<open>callTool\<close> returns: its result is a ToolResult of one text block, with or without the
  error flag. The handler returns so whatever its operations do, raising included.
\<close>

theorem callTool_never_raises:
  "name \<in> set tool_names \<Longrightarrow>
   (\<exists>t flag w'. callToolHandler gw name args w =
      (Inr \<lparr>content = [TextContent t], isError = flag\<rparr>, w')) \<and>
   (\<exists>t flag w'. callTool env name args w =
      (Inr \<lparr>content = [TextContent t], isError = flag\<rparr>, w'))"
proof -
  assume n: "name \<in> set tool_names"
  have h: "\<exists>t flag w'. callToolHandler g name args w =
      (Inr \<lparr>content = [TextContent t], isError = flag\<rparr>, w')" for g :: "'a gateway"
  proof -
    obtain r w' where c: "gateway_call g name args w = (r, w')"
      by (cases "gateway_call g name args w")
    show ?thesis
    proof (cases r)
      case (Inl e)
      with c handler_raises [OF _ n, of g args w e w'] show ?thesis by blast
    next
      case (Inr t)
      with c handler_returns [OF _ n, of g args w t w'] show ?thesis by blast
    qed
  qed
  from h [of gw] h [of "gateway env"] show ?thesis
    by (simp add: callTool_def)
qed

theorem callTool_never_raises_witness:
  "js ''get_event'' \<in> set tool_names \<and>
   (\<exists>t flag w'. callToolHandler raising_gateway (js ''get_event'') None sample_world =
      (Inr \<lparr>content = [TextContent t], isError = flag\<rparr>, w')) \<and>
   (\<exists>t flag w'. callTool sample_env (js ''get_event'') None sample_world =
      (Inr \<lparr>content = [TextContent t], isError = flag\<rparr>, w'))"
proof -
  have n: "js ''get_event'' \<in> set tool_names"
    by (simp add: tool_names_def)
  from n callTool_never_raises [OF n, of raising_gateway None sample_world sample_env]
  show ?thesis by blast
qed

section \<open>Unknown tools\<close>

text \<open>
  Claim C5. For a tool name that is not one of the seven, \<open>callTool\<close> returns the text
  \<open>Unknown tool: <name>\<close> behind the failure prefix, with the error flag set, and changes
  nothing. It is the only case in which the handler makes a failure of its own: for a
  recognised name the result is the text the operation returned, with no flag.
\<close>

theorem unknown_tool_rejected:
  "(name \<notin> set tool_names \<longrightarrow>
      callTool env name args w =
        (Inr \<lparr>content = [TextContent (failure_prefix @ js ''Unknown tool: '' @ name)],
              isError = Some True\<rparr>, w) \<and>
      sublist (js ''Unknown tool: '' @ name) (failure_prefix @ js ''Unknown tool: '' @ name)) \<and>
   (name \<in> set tool_names \<longrightarrow>
      (\<exists>t w'. gateway_call (gateway env) name args w = (Inr t, w') \<and>
         callTool env name args w =
           (Inr \<lparr>content = [TextContent t], isError = None\<rparr>, w')))"
proof (intro conjI impI)
  assume "name \<notin> set tool_names"
  then show "callTool env name args w =
        (Inr \<lparr>content = [TextContent (failure_prefix @ js ''Unknown tool: '' @ name)],
              isError = Some True\<rparr>, w)"
    by (simp add: callTool_def handler_unknown failure_prefix_def)
  show "sublist (js ''Unknown tool: '' @ name) (failure_prefix @ js ''Unknown tool: '' @ name)"
    by simp
next
  assume n: "name \<in> set tool_names"
  obtain t w' where g: "gateway_call (gateway env) name args w = (Inr t, w')"
    using gateway_never_raises by blast
  from handler_returns [OF g n] g
  show "\<exists>t w'. gateway_call (gateway env) name args w = (Inr t, w') \<and>
         callTool env name args w =
           (Inr \<lparr>content = [TextContent t], isError = None\<rparr>, w')"
    by (simp add: callTool_def)
qed

theorem unknown_tool_rejected_witness:
  "js ''nonexistent_tool'' \<notin> set tool_names \<and>
   callTool sample_env (js ''nonexistent_tool'') (Some Map.empty) sample_world =
     (Inr \<lparr>content = [TextContent (failure_prefix @ js ''Unknown tool: nonexistent_tool'')],
           isError = Some True\<rparr>, sample_world) \<and>
   js ''list_calendars'' \<in> set tool_names \<and>
   (\<exists>t w'. gateway_call (gateway sample_env) (js ''list_calendars'') None sample_world =
        (Inr t, w') \<and>
      callTool sample_env (js ''list_calendars'') None sample_world =
        (Inr \<lparr>content = [TextContent t], isError = None\<rparr>, w'))"
proof -
  have u: "js ''nonexistent_tool'' \<notin> set tool_names"
    by (simp add: tool_names_def js_def)
  have n: "js ''list_calendars'' \<in> set tool_names"
    by (simp add: tool_names_def)
  have a: "js ''Unknown tool: '' @ js ''nonexistent_tool'' = js ''Unknown tool: nonexistent_tool''"
    by (simp add: js_def)
  from unknown_tool_rejected [of "js ''nonexistent_tool''" sample_env "Some Map.empty" sample_world]
    unknown_tool_rejected [of "js ''list_calendars''" sample_env None sample_world] u n a
  show ?thesis by simp
qed

section \<open>The error flag\<close>

text \<open>
  Claim C2 says that the error flag is set whenever the operation reports a failure. The
  handler does not look at the text: \<open>get_event\<close> without an \<open>eventId\<close> returns the
  validation failure report with no flag.
\<close>

theorem get_event_failure_unflagged:
  "callTool sample_env (js ''get_event'') None sample_world =
     (Inr \<lparr>content = [TextContent (failure_prefix @ js ''eventId is required'')],
           isError = None\<rparr>, sample_world)"
  by (simp add: callTool_def callToolHandler_def gateway_def getEvent_def js_def arg_def
      or_default_def param_default_def validateRequired_def trim_def bind_def lift_def
      try_catch_def ret_def text_result_def failure_prefix_def)

text \<open>
  Claim C2, amended. For every recognised tool name and whatever the operations are: when the
  invoked operation returns a text, success or failure report alike, the result carries that
  text and no error flag; when the invoked operation raises instead of returning, the result
  carries the formatted error and the error flag is set.
\<close>

theorem flag_set_only_on_raise:
  "name \<in> set tool_names \<Longrightarrow>
   (case gateway_call gw name args w of
      (Inr t, w') \<Rightarrow>
        callToolHandler gw name args w =
          (Inr \<lparr>content = [TextContent t], isError = None\<rparr>, w')
    | (Inl e, w') \<Rightarrow>
        callToolHandler gw name args w =
          (Inr \<lparr>content = [TextContent (formatError e)], isError = Some True\<rparr>, w'))"
  by (simp add: handler_returns handler_raises split: prod.splits sum.splits)

theorem flag_set_only_on_raise_witness:
  "js ''get_event'' \<in> set tool_names \<and>
   callToolHandler (gateway sample_env) (js ''get_event'') None sample_world =
     (Inr \<lparr>content = [TextContent (validation_failure ''eventId'')], isError = None\<rparr>,
      sample_world) \<and>
   callToolHandler raising_gateway (js ''get_event'') None sample_world =
     (Inr \<lparr>content = [TextContent (formatError not_found)], isError = Some True\<rparr>,
      sample_world)"
proof -
  have n: "js ''get_event'' \<in> set tool_names"
    by (simp add: tool_names_def)
  have g: "gateway_call (gateway sample_env) (js ''get_event'') None sample_world =
             (Inr (validation_failure ''eventId''), sample_world)"
    by (simp add: gateway_call_def gateway_def getEvent_def js_def arg_def or_default_def
        param_default_def validateRequired_def bind_lift_Inl try_catch_ret_handler
        validation_failure_def)
  have r: "gateway_call raising_gateway (js ''get_event'') None sample_world =
             (Inl not_found, sample_world)"
    by (simp add: gateway_call_def raising_gateway_def js_def throw_def)
  from n g r flag_set_only_on_raise [OF n, of "gateway sample_env" None sample_world]
    flag_set_only_on_raise [OF n, of raising_gateway None sample_world]
  show ?thesis by simp
qed

section \<open>Memoised authentication\<close>

text \<open>
  Claim C7. \<open>initializeAuth\<close> is memoised. A call that succeeds with an empty cache reads
  the credentials file and the token file, once each, and caches the handle it returns; a
  call that finds a handle cached returns it and changes nothing. After a successful call,
  whatever tool calls the process serves and whatever the files then hold, a further call
  returns the same handle and no file is read again.
\<close>

theorem initializeAuth_memoised:
  assumes "initializeAuth env w = (Inr a, w1)"
  shows "(case auth w of
            None \<Rightarrow> file_reads w1 = file_reads w @ [CREDENTIALS_PATH env, TOKEN_PATH env]
          | Some c \<Rightarrow> c = a \<and> w1 = w) \<and>
         auth w1 = Some a \<and>
         initializeAuth env' (serve requests w1) = (Inr a, serve requests w1) \<and>
         file_reads (serve requests w1) = file_reads w1"
proof -
  have c: "auth w1 = Some a"
    using initializeAuth_result [OF assms] by simp
  have first: "(case auth w of
            None \<Rightarrow> file_reads w1 = file_reads w @ [CREDENTIALS_PATH env, TOKEN_PATH env]
          | Some c \<Rightarrow> c = a \<and> w1 = w)"
  proof (cases "auth w")
    case None
    from initializeAuth_fresh [OF None assms] None show ?thesis by simp
  next
    case (Some c)
    with assms initializeAuth_cached [OF Some, of env] show ?thesis by simp
  qed
  from serve_keeps_cache [OF c, of requests]
  have s: "auth (serve requests w1) = Some a" "file_reads (serve requests w1) = file_reads w1"
    by simp_all
  from first c initializeAuth_cached [OF s(1), of env'] s(2) show ?thesis by simp
qed

theorem initializeAuth_memoised_witness:
  "initializeAuth sample_env sample_world =
     (Inr sample_client,
      sample_world\<lparr>auth := Some sample_client,
                   file_reads := [js ''/app/credentials/credentials.json'',
                                  js ''/app/credentials/token.json'']\<rparr>) \<and>
   initializeAuth sample_env
       (serve [(sample_env, js ''list_calendars'', None)]
          (sample_world\<lparr>auth := Some sample_client,
                        file_reads := [js ''/app/credentials/credentials.json'',
                                       js ''/app/credentials/token.json'']\<rparr>)) =
     (Inr sample_client,
      serve [(sample_env, js ''list_calendars'', None)]
        (sample_world\<lparr>auth := Some sample_client,
                      file_reads := [js ''/app/credentials/credentials.json'',
                                     js ''/app/credentials/token.json'']\<rparr>)) \<and>
   file_reads
       (serve [(sample_env, js ''list_calendars'', None)]
          (sample_world\<lparr>auth := Some sample_client,
                        file_reads := [js ''/app/credentials/credentials.json'',
                                       js ''/app/credentials/token.json'']\<rparr>)) =
     [js ''/app/credentials/credentials.json'', js ''/app/credentials/token.json'']"
  using initializeAuth_memoised [OF sample_initializeAuth, of sample_env
      "[(sample_env, js ''list_calendars'', None)]"] sample_initializeAuth
  by simp

section \<open>Defaults of \<open>listEvents\<close>\<close>

text \<open>
  Claim C6. Every \<open>listEvents\<close> invocation, direct or through the \<open>list_events\<close>
  tool, issues either no remote call or one list call. In that call \<open>timeMin\<close> is the current time when the \<open>timeMin\<close> input is
  absent, \<open>maxResults\<close> is 10 when the \<open>maxResults\<close> input is omitted or does not parse
  as a number, and no \<open>timeMax\<close> is sent when the \<open>timeMax\<close> input is absent. The call
  is issued whenever the calendar client is available and the dates given are dates.
\<close>

theorem listEvents_defaults:
  "(calls (snd (listEvents env maxResults calendarId timeMin timeMax w)) = calls w \<or>
    (\<exists>p. calls (snd (listEvents env maxResults calendarId timeMin timeMax w)) =
            calls w @ [EventsList p] \<and>
          (absent timeMin \<longrightarrow> lp_timeMin p = Some (now_iso env)) \<and>
          (non_numeric maxResults \<longrightarrow> lp_maxResults p = 10) \<and>
          (absent timeMax \<longrightarrow> lp_timeMax p = None))) \<and>
   (calls (snd (callTool env (js ''list_events'') args w)) = calls w \<or>
    (\<exists>p. calls (snd (callTool env (js ''list_events'') args w)) = calls w @ [EventsList p] \<and>
          (absent (arg args ''timeMin'') \<longrightarrow> lp_timeMin p = Some (now_iso env)) \<and>
          (non_numeric (arg args ''maxResults'') \<longrightarrow> lp_maxResults p = 10) \<and>
          (absent (arg args ''timeMax'') \<longrightarrow> lp_timeMax p = None))) \<and>
   (getCalendar env w = (Inr calendar, w1) \<and> valid_or_absent env timeMin \<and>
    valid_or_absent env timeMax \<longrightarrow>
      calls (snd (listEvents env maxResults calendarId timeMin timeMax w)) \<noteq> calls w)"
proof -
  have m: "non_numeric maxResults \<longrightarrow> maxResultsNum (param_default maxResults (js ''10'')) = 10"
    by (auto simp: non_numeric_def param_default_def maxResultsNum_default maxResultsNum_NaN
        split: option.splits)
  from listEvents_calls_cases [of env maxResults calendarId timeMin timeMax w] m
  have direct:
    "calls (snd (listEvents env maxResults calendarId timeMin timeMax w)) = calls w \<or>
     (\<exists>p. calls (snd (listEvents env maxResults calendarId timeMin timeMax w)) =
            calls w @ [EventsList p] \<and>
          (absent timeMin \<longrightarrow> lp_timeMin p = Some (now_iso env)) \<and>
          (non_numeric maxResults \<longrightarrow> lp_maxResults p = 10) \<and>
          (absent timeMax \<longrightarrow> lp_timeMax p = None))"
    by (elim disjE exE conjE) auto
  from tool_list_events_calls [of env args w]
    maxResultsNum_or_default_NaN [of "arg args ''maxResults''"]
  have tool:
    "calls (snd (callTool env (js ''list_events'') args w)) = calls w \<or>
     (\<exists>p. calls (snd (callTool env (js ''list_events'') args w)) = calls w @ [EventsList p] \<and>
          (absent (arg args ''timeMin'') \<longrightarrow> lp_timeMin p = Some (now_iso env)) \<and>
          (non_numeric (arg args ''maxResults'') \<longrightarrow> lp_maxResults p = 10) \<and>
          (absent (arg args ''timeMax'') \<longrightarrow> lp_timeMax p = None))"
    by (elim disjE exE conjE) auto
  have issued:
    "calls (snd (listEvents env maxResults calendarId timeMin timeMax w)) \<noteq> calls w"
    if a: "getCalendar env w = (Inr calendar, w1) \<and> valid_or_absent env timeMin \<and>
           valid_or_absent env timeMax"
  proof -
    from timeMin_value [of env timeMin] a obtain t1 where
      t1: "(if param_default timeMin [] \<noteq> [] then toISOString env (param_default timeMin [])
            else Inr (now_iso env)) = Inr t1"
      by blast
    from timeMax_value [of env timeMax] a obtain t2 where
      t2: "(if param_default timeMax [] \<noteq> []
            then map_sum id Some (toISOString env (param_default timeMax []))
            else Inr None) = Inr t2"
      by blast
    from a have gc: "getCalendar env w = (Inr calendar, w1)" by simp
    from listEvents_calls [OF gc t1 t2, of maxResults calendarId] show ?thesis by simp
  qed
  from direct tool issued show ?thesis by blast
qed

theorem listEvents_defaults_witness:
  "getCalendar sample_env sample_world =
     (Inr sample_client,
      sample_world\<lparr>auth := Some sample_client,
                   file_reads := [js ''/app/credentials/credentials.json'',
                                  js ''/app/credentials/token.json'']\<rparr>) \<and>
   valid_or_absent sample_env None \<and> valid_or_absent sample_env (Some []) \<and>
   absent None \<and> absent (Some []) \<and> non_numeric (Some (js ''ten'')) \<and>
   (\<exists>p. calls (snd (listEvents sample_env (Some (js ''ten'')) None None (Some []) sample_world)) =
          calls sample_world @ [EventsList p] \<and>
        lp_timeMin p = Some (now_iso sample_env) \<and> lp_maxResults p = 10 \<and>
        lp_timeMax p = None)"
proof -
  have gc: "getCalendar sample_env sample_world =
     (Inr sample_client,
      sample_world\<lparr>auth := Some sample_client,
                   file_reads := [js ''/app/credentials/credentials.json'',
                                  js ''/app/credentials/token.json'']\<rparr>)"
    by (simp add: getCalendar_def sample_initializeAuth)
  have v: "valid_or_absent sample_env None" "valid_or_absent sample_env (Some [])"
    by (simp_all add: valid_or_absent_def)
  have a: "absent None" "absent (Some [])"
    by (simp_all add: absent_def)
  have n: "non_numeric (Some (js ''ten''))"
    by (simp add: non_numeric_def parseInt_def js_def strip_sign_def strip_radix_prefix_def
        is_whitespace_def is_radix_digit_def digit_value_def)
  from listEvents_defaults [where env = sample_env and w = sample_world
      and maxResults = "Some (js ''ten'')" and calendarId = None and timeMin = None
      and timeMax = "Some []" and calendar = sample_client and args = None
      and ?w1.0 = "sample_world\<lparr>auth := Some sample_client,
                     file_reads := [js ''/app/credentials/credentials.json'',
                                    js ''/app/credentials/token.json'']\<rparr>"]
    gc v a n
  show ?thesis by blast
qed

section \<open>A limit of zero\<close>

text \<open>
  Claim C9. A \<open>maxResults\<close> input whose integer parse is zero is treated as one that does
  not parse: \<open>listEvents\<close> and \<open>searchEvents\<close>, called directly or through their
  tools, issue either no remote call or one list call, whose limit is 10, never 0. The call is issued whenever the calendar client is
  available and the other inputs pass (dates that are dates, a query that is not blank).
\<close>

theorem zero_maxResults_defaults:
  assumes zero: "parseInt maxResults = Some 0"
  shows "(calls (snd (listEvents env (Some maxResults) calendarId timeMin timeMax w)) = calls w \<or>
          (\<exists>p. calls (snd (listEvents env (Some maxResults) calendarId timeMin timeMax w)) =
                  calls w @ [EventsList p] \<and> lp_maxResults p = 10)) \<and>
         (calls (snd (searchEvents env query (Some maxResults) calendarId w)) = calls w \<or>
          (\<exists>p. calls (snd (searchEvents env query (Some maxResults) calendarId w)) =
                  calls w @ [EventsList p] \<and> lp_maxResults p = 10)) \<and>
         (arg args ''maxResults'' = Some maxResults \<longrightarrow>
            (calls (snd (callTool env (js ''list_events'') args w)) = calls w \<or>
             (\<exists>p. calls (snd (callTool env (js ''list_events'') args w)) =
                     calls w @ [EventsList p] \<and> lp_maxResults p = 10)) \<and>
            (calls (snd (callTool env (js ''search_events'') args w)) = calls w \<or>
             (\<exists>p. calls (snd (callTool env (js ''search_events'') args w)) =
                     calls w @ [EventsList p] \<and> lp_maxResults p = 10))) \<and>
         (getCalendar env w = (Inr calendar, w1) \<longrightarrow>
            (valid_or_absent env timeMin \<and> valid_or_absent env timeMax \<longrightarrow>
               calls (snd (listEvents env (Some maxResults) calendarId timeMin timeMax w)) \<noteq>
                 calls w) \<and>
            (\<not> blank query \<longrightarrow>
               calls (snd (searchEvents env query (Some maxResults) calendarId w)) \<noteq> calls w))"
proof -
  have m: "maxResultsNum (param_default (Some maxResults) (js ''10'')) = 10"
    by (simp add: param_default_def maxResultsNum_zero [OF zero])
  from listEvents_calls_cases [of env "Some maxResults" calendarId timeMin timeMax w] m
  have list_direct:
    "calls (snd (listEvents env (Some maxResults) calendarId timeMin timeMax w)) = calls w \<or>
     (\<exists>p. calls (snd (listEvents env (Some maxResults) calendarId timeMin timeMax w)) =
            calls w @ [EventsList p] \<and> lp_maxResults p = 10)"
    by (elim disjE exE conjE) auto
  from searchEvents_calls_cases [of env query "Some maxResults" calendarId w] m
  have search_direct:
    "calls (snd (searchEvents env query (Some maxResults) calendarId w)) = calls w \<or>
     (\<exists>p. calls (snd (searchEvents env query (Some maxResults) calendarId w)) =
            calls w @ [EventsList p] \<and> lp_maxResults p = 10)"
    by (elim disjE) auto
  have tool:
    "(calls (snd (callTool env (js ''list_events'') args w)) = calls w \<or>
      (\<exists>p. calls (snd (callTool env (js ''list_events'') args w)) =
              calls w @ [EventsList p] \<and> lp_maxResults p = 10)) \<and>
     (calls (snd (callTool env (js ''search_events'') args w)) = calls w \<or>
      (\<exists>p. calls (snd (callTool env (js ''search_events'') args w)) =
              calls w @ [EventsList p] \<and> lp_maxResults p = 10))"
    if a: "arg args ''maxResults'' = Some maxResults"
  proof -
    from a maxResultsNum_or_default_zero [OF zero]
    have z: "maxResultsNum (or_default (arg args ''maxResults'') (js ''10'')) = 10"
      by simp
    from tool_list_events_calls [of env args w] tool_search_events_calls [of env args w] z
    show ?thesis by auto
  qed
  have list_issued:
    "calls (snd (listEvents env (Some maxResults) calendarId timeMin timeMax w)) \<noteq> calls w"
    if gc: "getCalendar env w = (Inr calendar, w1)"
      and v: "valid_or_absent env timeMin \<and> valid_or_absent env timeMax"
  proof -
    from timeMin_value [of env timeMin] v obtain t1 where
      t1: "(if param_default timeMin [] \<noteq> [] then toISOString env (param_default timeMin [])
            else Inr (now_iso env)) = Inr t1"
      by blast
    from timeMax_value [of env timeMax] v obtain t2 where
      t2: "(if param_default timeMax [] \<noteq> []
            then map_sum id Some (toISOString env (param_default timeMax []))
            else Inr None) = Inr t2"
      by blast
    from listEvents_calls [OF gc t1 t2, of "Some maxResults" calendarId] show ?thesis by simp
  qed
  have search_issued:
    "calls (snd (searchEvents env query (Some maxResults) calendarId w)) \<noteq> calls w"
    if gc: "getCalendar env w = (Inr calendar, w1)" and q: "\<not> blank query"
    using searchEvents_calls [OF gc q, of "Some maxResults" calendarId] by simp
  from list_direct search_direct tool list_issued search_issued show ?thesis by blast
qed

theorem zero_maxResults_defaults_witness:
  "parseInt (js ''0'') = Some 0 \<and>
   getCalendar sample_env sample_world =
     (Inr sample_client,
      sample_world\<lparr>auth := Some sample_client,
                   file_reads := [js ''/app/credentials/credentials.json'',
                                  js ''/app/credentials/token.json'']\<rparr>) \<and>
   valid_or_absent sample_env None \<and> \<not> blank (Some (js ''sync'')) \<and>
   (\<exists>p. calls (snd (listEvents sample_env (Some (js ''0'')) None None None sample_world)) =
          calls sample_world @ [EventsList p] \<and> lp_maxResults p = 10) \<and>
   (\<exists>p. calls (snd (searchEvents sample_env (Some (js ''sync'')) (Some (js ''0'')) None
                      sample_world)) =
          calls sample_world @ [EventsList p] \<and> lp_maxResults p = 10)"
proof -
  have z: "parseInt (js ''0'') = Some 0"
    by (simp add: parseInt_def js_def strip_sign_def strip_radix_prefix_def
        is_whitespace_def is_radix_digit_def digit_value_def)
  have gc: "getCalendar sample_env sample_world =
     (Inr sample_client,
      sample_world\<lparr>auth := Some sample_client,
                   file_reads := [js ''/app/credentials/credentials.json'',
                                  js ''/app/credentials/token.json'']\<rparr>)"
    by (simp add: getCalendar_def sample_initializeAuth)
  have v: "valid_or_absent sample_env None"
    by (simp add: valid_or_absent_def)
  have q: "\<not> blank (Some (js ''sync''))"
    by (simp add: blank_def trim_def is_whitespace_def js_def)
  from zero_maxResults_defaults [OF z, where env = sample_env and w = sample_world
      and timeMin = None and timeMax = None and calendarId = None and args = None
      and query = "Some (js ''sync'')" and calendar = sample_client
      and ?w1.0 = "sample_world\<lparr>auth := Some sample_client,
                     file_reads := [js ''/app/credentials/credentials.json'',
                                    js ''/app/credentials/token.json'']\<rparr>"]
    z gc v q
  show ?thesis by blast
qed

section \<open>Invalid dates on create\<close>

text \<open>
  Claim C10. When \<open>summary\<close>, \<open>start\<close> and \<open>end\<close> are not blank and \<open>start\<close> or \<open>end\<close> is
  not a date, \<open>createEvent\<close> returns a failure report (the failure prefix followed by a
  message), issues no remote call and leaves the remote calendar as it was. When the
  calendar client was obtained, the message is that of the date conversion.
\<close>

theorem createEvent_invalid_date:
  assumes s: "\<not> blank (Some summary)" and st: "\<not> blank (Some start)"
      and en: "\<not> blank (Some end')"
      and bad: "date_to_iso env start = None \<or> date_to_iso env end' = None"
  shows "\<exists>msg w'. createEvent env (Some summary) (Some start) (Some end') description location
                    attendees calendarId w = (Inr (failure_prefix @ msg), w') \<and>
           calls w' = calls w \<and> remote w' = remote w \<and>
           (auth w' \<noteq> None \<longrightarrow> msg = js ''Invalid time value'')"
proof -
  obtain r w1 where gc: "getCalendar env w = (r, w1)"
    by (cases "getCalendar env w")
  note fr = getCalendar_frame [OF gc] and res = getCalendar_result [OF gc]
  have v: "validateRequired (Some summary) (js ''summary'') = Inr (trim summary)"
      "validateRequired (Some start) (js ''start'') = Inr (trim start)"
      "validateRequired (Some end') (js ''end'') = Inr (trim end')"
    using validateRequired_not_blank [OF s] validateRequired_not_blank [OF st]
      validateRequired_not_blank [OF en]
    by (simp_all add: param_default_def)
  show ?thesis
  proof (cases r)
    case (Inl e)
    with res have a: "auth w1 = None" by simp
    from gc Inl have gc': "getCalendar env w = (Inl e, w1)" by simp
    have "createEvent env (Some summary) (Some start) (Some end') description location
            attendees calendarId w = (Inr (formatError e), w1)"
      by (simp add: createEvent_def Let_def param_default_def v bind_lift_Inr
          try_catch_ret_handler bind_getCalendar_Inl [OF gc'])
    with fr a formatError_prefix [of e] show ?thesis by auto
  next
    case (Inr c)
    with gc have gc': "getCalendar env w = (Inr c, w1)" by simp
    have "createEvent env (Some summary) (Some start) (Some end') description location
            attendees calendarId w =
          (Inr (formatError (ErrorObj (js ''Invalid time value''))), w1)"
    proof (cases "date_to_iso env start")
      case None
      then show ?thesis
        by (simp add: createEvent_def Let_def param_default_def v bind_lift_Inr
            try_catch_ret_handler bind_getCalendar_Inr [OF gc'] toISOString_invalid bind_lift_Inl)
    next
      case (Some t)
      with bad have "date_to_iso env end' = None" by simp
      with Some show ?thesis
        by (simp add: createEvent_def Let_def param_default_def v bind_lift_Inr
            try_catch_ret_handler bind_getCalendar_Inr [OF gc'] toISOString_invalid
            toISOString_valid bind_lift_Inl)
    qed
    with fr show ?thesis by (auto simp: failure_prefix_def)
  qed
qed

theorem createEvent_invalid_date_witness:
  "\<not> blank (Some (js ''Team Sync'')) \<and> \<not> blank (Some (js ''tomorrow'')) \<and>
   \<not> blank (Some (js ''2025-11-27T15:00:00Z'')) \<and>
   date_to_iso sample_env (js ''tomorrow'') = None \<and>
   (\<exists>msg w'. createEvent sample_env (Some (js ''Team Sync'')) (Some (js ''tomorrow''))
                (Some (js ''2025-11-27T15:00:00Z'')) None None None None sample_world =
                (Inr (failure_prefix @ msg), w') \<and>
              calls w' = calls sample_world \<and> remote w' = remote sample_world)"
proof -
  have a: "\<not> blank (Some (js ''Team Sync''))"
    by (simp add: blank_def trim_def is_whitespace_def js_def)
  have b: "\<not> blank (Some (js ''tomorrow''))"
    by (simp add: blank_def trim_def is_whitespace_def js_def)
  have c: "\<not> blank (Some (js ''2025-11-27T15:00:00Z''))"
    by (simp add: blank_def trim_def is_whitespace_def js_def)
  have d: "date_to_iso sample_env (js ''tomorrow'') = None"
    by (simp add: sample_env_def sample_date_to_iso_def js_def)
  from createEvent_invalid_date [OF a b c disjI1 [OF d], of None None None None sample_world]
    a b c d
  show ?thesis by blast
qed

section \<open>Reading an event twice\<close>

text \<open>
  Claim C8. Two successive \<open>getEvent\<close> calls with the same \<open>eventId\<close> and \<open>calendarId\<close>
  return the same text when the remote service answers the second read as it answered the
  first (no mutation in between). The text is a function of the event data returned: when
  the read is answered with an event, the text is \<open>event_details\<close> of that event.
\<close>

theorem getEvent_idempotent:
  assumes first: "getEvent env eventId calendarId w = (t1, w1)"
      and same: "\<And>c. fst (svc_events_get env c (param_default calendarId (js ''primary''))
                          (param_default eventId []) (remote w1)) =
                   fst (svc_events_get env c (param_default calendarId (js ''primary''))
                          (param_default eventId []) (remote w))"
  shows "fst (getEvent env eventId calendarId w1) = t1 \<and>
         (\<forall>c e. \<not> blank eventId \<and> auth w1 = Some c \<and>
                fst (svc_events_get env c (param_default calendarId (js ''primary''))
                       (param_default eventId []) (remote w)) = Inr e \<longrightarrow>
                t1 = Inr (event_details e))"
proof (cases "blank eventId")
  case True
  have "\<And>w'. getEvent env eventId calendarId w' = (Inr (validation_failure ''eventId''), w')"
    by (simp add: getEvent_def Let_def validateRequired_blank [OF True] bind_lift_Inl
        try_catch_ret_handler validation_failure_def)
  with first True show ?thesis by simp
next
  case nb: False
  let ?cid = "param_default calendarId (js ''primary'')"
  let ?eid = "param_default eventId []"
  obtain r wa where gc: "getCalendar env w = (r, wa)"
    by (cases "getCalendar env w")
  note fr = getCalendar_frame [OF gc] and res = getCalendar_result [OF gc]
  show ?thesis
  proof (cases r)
    case (Inl e)
    with gc have gc': "getCalendar env w = (Inl e, wa)" by simp
    from getEvent_auth_failed [OF nb gc', of calendarId] first
    have t1: "t1 = Inr (formatError e)" and w1: "w1 = wa" by simp_all
    from res Inl w1 have a1: "auth w1 = None" by simp
    have a0: "auth w = None"
    proof (cases "auth w")
      case (Some a)
      from initializeAuth_cached [OF Some, of env] gc' show ?thesis
        by (simp add: getCalendar_def)
    qed simp
    from initializeAuth_fst_indep [OF a0 a1, of env] gc'
    have "fst (getCalendar env w1) = Inl e"
      by (simp add: getCalendar_def)
    then obtain w2 where "getCalendar env w1 = (Inl e, w2)"
      by (cases "getCalendar env w1") simp
    from getEvent_auth_failed [OF nb this, of calendarId] t1 a1 show ?thesis by simp
  next
    case (Inr c)
    with gc have gc': "getCalendar env w = (Inr c, wa)" by simp
    from res Inr have aa: "auth wa = Some c" by simp
    obtain g wb where eg: "events_get env c ?cid ?eid wa = (g, wb)"
      by (cases "events_get env c ?cid ?eid wa")
    note gw = events_get_world [OF eg]
    from getEvent_after_auth [OF nb gc', of calendarId] eg first
    have t1: "t1 = (case g of Inl e \<Rightarrow> Inr (formatError e) | Inr ev \<Rightarrow> Inr (event_details ev))"
      and w1: "w1 = wb"
      by (auto split: sum.splits)
    from gw aa w1 have a1: "auth w1 = Some c" by simp
    from gw fr have g: "g = fst (svc_events_get env c ?cid ?eid (remote w))" by simp
    have gc2: "getCalendar env w1 = (Inr c, w1)"
      using a1 by (simp add: getCalendar_def initializeAuth_cached)
    obtain g2 wc where eg2: "events_get env c ?cid ?eid w1 = (g2, wc)"
      by (cases "events_get env c ?cid ?eid w1")
    from events_get_world [OF eg2] same [of c] g have g2: "g2 = g" by simp
    from getEvent_after_auth [OF nb gc2, of calendarId] eg2 g2 t1
    have "fst (getEvent env eventId calendarId w1) = t1"
      by (auto split: sum.splits)
    moreover have "\<forall>c' e. \<not> blank eventId \<and> auth w1 = Some c' \<and>
                fst (svc_events_get env c' ?cid ?eid (remote w)) = Inr e \<longrightarrow>
                t1 = Inr (event_details e)"
      using a1 g t1 by auto
    ultimately show ?thesis by simp
  qed
qed

theorem getEvent_idempotent_witness:
  "getEvent sample_env (Some (js ''evt1'')) None sample_world =
     (Inr (event_details sample_event),
      sample_world\<lparr>auth := Some sample_client,
                   file_reads := [js ''/app/credentials/credentials.json'',
                                  js ''/app/credentials/token.json''],
                   calls := [EventsGet (js ''primary'') (js ''evt1'')]\<rparr>) \<and>
   fst (getEvent sample_env (Some (js ''evt1'')) None
          (sample_world\<lparr>auth := Some sample_client,
                        file_reads := [js ''/app/credentials/credentials.json'',
                                       js ''/app/credentials/token.json''],
                        calls := [EventsGet (js ''primary'') (js ''evt1'')]\<rparr>)) =
     Inr (event_details sample_event)"
proof -
  let ?w1 = "sample_world\<lparr>auth := Some sample_client,
                   file_reads := [js ''/app/credentials/credentials.json'',
                                  js ''/app/credentials/token.json''],
                   calls := [EventsGet (js ''primary'') (js ''evt1'')]\<rparr>"
  have first: "getEvent sample_env (Some (js ''evt1'')) None sample_world =
                 (Inr (event_details sample_event), ?w1)"
    by code_simp
  have same: "\<And>c. fst (svc_events_get sample_env c (param_default None (js ''primary''))
                          (param_default (Some (js ''evt1'')) []) (remote ?w1)) =
                   fst (svc_events_get sample_env c (param_default None (js ''primary''))
                          (param_default (Some (js ''evt1'')) []) (remote sample_world))"
    by simp
  from getEvent_idempotent [OF first same] first show ?thesis by simp
qed

section \<open>Updating with only an event id\<close>

text \<open>
  What \<open>updateEvent\<close> sends when it reaches the remote service with no new start or end:
  one get call, then one update call whose body takes summary, start and end from the stored
  event when they are not supplied, and description and location from the inputs, the empty
  string standing for an input that was not supplied.
\<close>

lemma bind_events_get_Inr:
  "svc_events_get env c cid eid (remote w) = (Inr ev, r1) \<Longrightarrow>
   bind (events_get env c cid eid) f w =
     f ev (w\<lparr>calls := calls w @ [EventsGet cid eid], remote := r1\<rparr>)"
  by (simp add: bind_def events_get_def remote_call_def)

lemma updateEvent_request:
  assumes nb: "\<not> blank eventId" and gc: "getCalendar env w = (Inr c, w1)"
      and get: "svc_events_get env c (param_default calendarId (js ''primary''))
                  (param_default eventId []) (remote w) = (Inr existing, r1)"
      and st: "absent start" and en: "absent end'"
  shows "calls (snd (updateEvent env eventId summary start end' description location
                       calendarId w)) =
           calls w @
           [EventsGet (param_default calendarId (js ''primary'')) (param_default eventId []),
            EventsUpdate (param_default calendarId (js ''primary'')) (param_default eventId [])
              \<lparr>eb_summary = or_else (Some (param_default summary [])) (ev_summary existing),
               eb_start = ev_start existing, eb_end = ev_end existing,
               eb_description = Some (param_default description []),
               eb_location = Some (param_default location []),
               eb_attendees = None\<rparr>]"
proof -
  from getCalendar_frame [OF gc] get
  have get': "svc_events_get env c (param_default calendarId (js ''primary''))
                  (param_default eventId []) (remote w1) = (Inr existing, r1)"
    by simp
  show ?thesis
    using getCalendar_frame [OF gc]
    by (simp add: updateEvent_def Let_def try_catch_ret_handler snd_handler_case
        validateRequired_not_blank [OF nb] bind_lift_Inr bind_getCalendar_Inr [OF gc]
        bind_events_get_Inr [OF get'] absent_param_default [OF st]
        absent_param_default [OF en] is_defined_def snd_bind_pure ret_def
        events_update_def calls_remote_call)
qed

text \<open>
  Claim C1 says that \<open>update_event\<close> with only \<open>eventId\<close> supplied sends, for every field
  not supplied, the value stored on the remote event. On the sample event, whose description
  and location are set, the tool call issues one get call and one update call; the update
  carries the stored summary, start and end, and the empty string for description and
  location.
\<close>

theorem update_event_clears_description:
  "ev_description sample_event = Some (js ''Quarterly numbers'') \<and>
   ev_location sample_event = Some (js ''Room 4'') \<and>
   calls (snd (callTool sample_env (js ''update_event'')
                 (Some [js ''eventId'' \<mapsto> js ''evt1'']) sample_world)) =
     [EventsGet (js ''primary'') (js ''evt1''),
      EventsUpdate (js ''primary'') (js ''evt1'')
        \<lparr>eb_summary = ev_summary sample_event, eb_start = ev_start sample_event,
         eb_end = ev_end sample_event, eb_description = Some [], eb_location = Some [],
         eb_attendees = None\<rparr>]"
  by code_simp

end
